theory Spec2Isabelle
  imports Main "HOL-Library.Sublist"
begin

section \<open>JavaScript values used by the runtime server\<close>

text \<open>
  The runtime server (\<^verbatim>\<open>src/server/index.js\<close>, and the earlier variants of the same file
  kept in \<^verbatim>\<open>src/unnamed/part_000\<close>) is a Node.js program. Strings are modelled as
  \<^typ>\<open>string\<close>; a character is one code unit below 256, so the model covers Latin-1 text.
  A value that may be \<^verbatim>\<open>undefined\<close> or \<^verbatim>\<open>null\<close> is an \<^typ>\<open>'a option\<close>.
\<close>

definition truthy :: "string option \<Rightarrow> bool" where
  \<comment> \<open>JavaScript truthiness of a string-or-undefined value: the empty string is falsy.\<close>
  "truthy v = (case v of None \<Rightarrow> False | Some x \<Rightarrow> x \<noteq> [])"

definition or_empty :: "string option \<Rightarrow> string" where
  \<comment> \<open>\<^verbatim>\<open>v || ''\<close> and \<^verbatim>\<open>v ?? ''\<close> on a string-or-undefined value.\<close>
  "or_empty v = (case v of None \<Rightarrow> [] | Some x \<Rightarrow> x)"

definition endsWith :: "string \<Rightarrow> string \<Rightarrow> bool" where
  "endsWith s e = suffix e s"

definition includes_chr :: "string \<Rightarrow> char \<Rightarrow> bool" where
  "includes_chr s c = (c \<in> set s)"

fun split_on :: "char \<Rightarrow> string \<Rightarrow> string list" where
  "split_on d [] = [[]]"
| "split_on d (x # xs) =
     (if x = d then [] # split_on d xs
      else (case split_on d xs of [] \<Rightarrow> [[x]] | y # ys \<Rightarrow> (x # y) # ys))"

fun join_with :: "string \<Rightarrow> string list \<Rightarrow> string" where
  "join_with d [] = []"
| "join_with d [x] = x"
| "join_with d (x # y # ys) = x @ d @ join_with d (y # ys)"

text \<open>
  \<^verbatim>\<open>Array.from(new Set(xs))\<close>: a JavaScript Set iterates in insertion order, and inserting
  a value that is already present changes nothing. (\<^const>\<open>remdups\<close> keeps the last
  occurrence instead, so it is not used.)
\<close>

definition set_add :: "'a list \<Rightarrow> 'a \<Rightarrow> 'a list" where
  "set_add seen x = (if x \<in> set seen then seen else seen @ [x])"

definition from_set :: "'a list \<Rightarrow> 'a list" where
  "from_set xs = foldl set_add [] xs"

section \<open>Regular expressions\<close>

text \<open>
  The source matches text with regular-expression literals. They are embedded as values
  of \<open>rx\<close> and run by a backtracking matcher that returns every way of matching at
  the current position, in the priority order of ECMAScript (left alternative first,
  greedy repetition first); the head of the list is the match the engine reports.
  A matcher state is the character before the current position (for \<^verbatim>\<open>\b\<close> and
  \<^verbatim>\<open>^\<close>), the capture groups set so far, and the rest of the input.
\<close>

definition is_digit :: "char \<Rightarrow> bool" where
  "is_digit c = (let n = (of_char c :: nat) in 48 \<le> n \<and> n \<le> 57)"

definition is_alpha_us :: "char \<Rightarrow> bool" where
  \<comment> \<open>\<^verbatim>\<open>[A-Za-z_]\<close>\<close>
  "is_alpha_us c = (let n = (of_char c :: nat) in
     (97 \<le> n \<and> n \<le> 122) \<or> (65 \<le> n \<and> n \<le> 90) \<or> n = 95)"

definition is_word :: "char \<Rightarrow> bool" where
  \<comment> \<open>\<^verbatim>\<open>\w\<close>\<close>
  "is_word c = (is_alpha_us c \<or> is_digit c)"

definition is_word_dot :: "char \<Rightarrow> bool" where
  \<comment> \<open>\<^verbatim>\<open>[\w.]\<close>\<close>
  "is_word_dot c = (is_word c \<or> c = CHR ''.'')"

definition is_space :: "char \<Rightarrow> bool" where
  \<comment> \<open>\<^verbatim>\<open>\s\<close> on code units below 256: tab, LF, VT, FF, CR, space, no-break space\<close>
  "is_space c = (of_char c \<in> {9, 10, 11, 12, 13, 32, 160 :: nat})"

definition is_line_terminator :: "char \<Rightarrow> bool" where
  "is_line_terminator c = (of_char c \<in> {10, 13 :: nat})"

definition lower_ascii :: "char \<Rightarrow> char" where
  "lower_ascii c = (let n = (of_char c :: nat) in
     if 65 \<le> n \<and> n \<le> 90 then char_of (n + 32) else c)"

datatype rx =
    Lit string
  | LitI string
  | Cls "char \<Rightarrow> bool"
  | Seq rx rx
  | Alt rx rx
  | Star rx
  | Bnd
  | Bol
  | Eol
  | Grp nat rx

type_synonym mstate = "char option \<times> (nat \<times> string) list \<times> string"

fun rx_run :: "rx \<Rightarrow> mstate \<Rightarrow> mstate list" where
  "rx_run (Lit l) (p, c, s) =
     (if l = [] then [(p, c, s)]
      else if prefix l s then [(Some (last l), c, drop (length l) s)] else [])"
| "rx_run (LitI l) (p, c, s) =
     (if l = [] then [(p, c, s)]
      else if length l \<le> length s \<and> map lower_ascii (take (length l) s) = map lower_ascii l
      then [(Some (s ! (length l - 1)), c, drop (length l) s)] else [])"
| "rx_run (Cls f) (p, c, s) =
     (case s of [] \<Rightarrow> [] | x # xs \<Rightarrow> if f x then [(Some x, c, xs)] else [])"
| "rx_run (Seq a b) st = concat (map (rx_run b) (rx_run a st))"
| "rx_run (Alt a b) st = rx_run a st @ rx_run b st"
| "rx_run (Star a) (p, c, s) =
     concat (map (\<lambda>(p', c', s'). if length s' < length s then rx_run (Star a) (p', c', s') else [])
                 (rx_run a (p, c, s))) @ [(p, c, s)]"
| "rx_run Bnd (p, c, s) =
     (if (case p of None \<Rightarrow> False | Some x \<Rightarrow> is_word x)
         \<noteq> (case s of [] \<Rightarrow> False | x # _ \<Rightarrow> is_word x)
      then [(p, c, s)] else [])"
| "rx_run Bol (p, c, s) =
     (if (case p of None \<Rightarrow> True | Some x \<Rightarrow> is_line_terminator x) then [(p, c, s)] else [])"
| "rx_run Eol (p, c, s) = (if s = [] then [(p, c, s)] else [])"
| "rx_run (Grp n a) (p, c, s) =
     map (\<lambda>(p', c', s'). (p', (n, take (length s - length s') s) # c', s')) (rx_run a (p, c, s))"

definition Plus :: "rx \<Rightarrow> rx" where
  "Plus r = Seq r (Star r)"

definition Opt :: "rx \<Rightarrow> rx" where
  "Opt r = Alt r (Lit [])"

fun seqs :: "rx list \<Rightarrow> rx" where
  "seqs [] = Lit []"
| "seqs [r] = r"
| "seqs (r # rs) = Seq r (seqs rs)"

definition sp0 :: rx where
  \<comment> \<open>\<^verbatim>\<open>\s*\<close>\<close>
  "sp0 = Star (Cls is_space)"

definition sp1 :: rx where
  \<comment> \<open>\<^verbatim>\<open>\s+\<close>\<close>
  "sp1 = Plus (Cls is_space)"

definition ident :: rx where
  \<comment> \<open>\<^verbatim>\<open>[A-Za-z_]\w*\<close>\<close>
  "ident = Seq (Cls is_alpha_us) (Star (Cls is_word))"

text \<open>
  Searching (\<^verbatim>\<open>test\<close>, \<^verbatim>\<open>match\<close>, \<^verbatim>\<open>exec\<close>) tries the start positions from left to
  right. The result is the state after the first match, with its captures.
\<close>

fun rx_search :: "rx \<Rightarrow> char option \<Rightarrow> string \<Rightarrow> mstate option" where
  "rx_search r p [] = (case rx_run r (p, [], []) of m # _ \<Rightarrow> Some m | [] \<Rightarrow> None)"
| "rx_search r p (x # xs) =
     (case rx_run r (p, [], x # xs) of m # _ \<Rightarrow> Some m | [] \<Rightarrow> rx_search r (Some x) xs)"

definition rx_test :: "rx \<Rightarrow> string \<Rightarrow> bool" where
  "rx_test r s = (rx_search r None s \<noteq> None)"

definition rx_match :: "rx \<Rightarrow> string \<Rightarrow> (nat \<times> string) list option" where
  \<comment> \<open>\<^verbatim>\<open>s.match(r)\<close> without the \<^verbatim>\<open>g\<close> flag: the captures of the first match\<close>
  "rx_match r s = (case rx_search r None s of None \<Rightarrow> None | Some (p, c, s') \<Rightarrow> Some c)"

text \<open>
  The loop \<^verbatim>\<open>while ((m = r.exec(s)) !== null)\<close> over a \<^verbatim>\<open>g\<close> expression resumes each
  search where the previous match ended. Every expression it is used with starts with a
  keyword, so a match is never empty and the search always advances; the model stops
  after a match that would not advance.
\<close>

fun rx_exec_all :: "rx \<Rightarrow> char option \<Rightarrow> string \<Rightarrow> (nat \<times> string) list list" where
  "rx_exec_all r p s =
     (case rx_search r p s of
        None \<Rightarrow> []
      | Some (p', c, s') \<Rightarrow> if length s' < length s then c # rx_exec_all r p' s' else [c])"

section \<open>Paths (\<^verbatim>\<open>path.posix\<close>)\<close>

text \<open>
  The server is deployed on Linux (the repository's Dockerfile), so \<^verbatim>\<open>path\<close> is
  \<^verbatim>\<open>path.posix\<close>: the separator is the slash, and a backslash is an ordinary character.
\<close>

fun normalizeString :: "bool \<Rightarrow> string list \<Rightarrow> string list \<Rightarrow> string list" where
  \<comment> \<open>the segments still to read, and the segments kept so far (last one first)\<close>
  "normalizeString allowAboveRoot acc [] = rev acc"
| "normalizeString allowAboveRoot acc (seg # segs) =
     (if seg = [] \<or> seg = ''.'' then normalizeString allowAboveRoot acc segs
      else if seg = ''..'' then
        (case acc of
           [] \<Rightarrow> normalizeString allowAboveRoot (if allowAboveRoot then [''..''] else []) segs
         | a # acc' \<Rightarrow>
             if a = ''..'' then normalizeString allowAboveRoot (if allowAboveRoot then ''..'' # acc else acc) segs
             else normalizeString allowAboveRoot acc' segs)
      else normalizeString allowAboveRoot (seg # acc) segs)"

definition path_normalize :: "string \<Rightarrow> string" where
  "path_normalize p =
     (if p = [] then ''.''
      else
        let isAbsolute = (hd p = CHR ''/'');
            trailingSeparator = (last p = CHR ''/'');
            body = join_with ''/'' (normalizeString (\<not> isAbsolute) [] (split_on CHR ''/'' p))
        in if body = [] then (if isAbsolute then ''/'' else if trailingSeparator then ''./'' else ''.'')
           else (if isAbsolute then ''/'' else []) @ body @ (if trailingSeparator then ''/'' else []))"

definition path_join :: "string \<Rightarrow> string \<Rightarrow> string" where
  \<comment> \<open>\<^verbatim>\<open>path.join(a, b)\<close> on two strings\<close>
  "path_join a b =
     (if a = [] \<and> b = [] then ''.''
      else if a = [] then path_normalize b
      else if b = [] then path_normalize a
      else path_normalize (a @ ''/'' @ b))"

definition path_dirname :: "string \<Rightarrow> string" where
  "path_dirname p =
     (if p = [] then ''.''
      else
        let hasRoot = (hd p = CHR ''/'');
            r1 = dropWhile (\<lambda>c. c = CHR ''/'') (rev (tl p));
            r2 = dropWhile (\<lambda>c. c \<noteq> CHR ''/'') r1
        in if r2 = [] then (if hasRoot then ''/'' else ''.'')
           else if hasRoot \<and> tl r2 = [] then ''//''
           else hd p # rev (tl r2))"

definition path_basename :: "string \<Rightarrow> string \<Rightarrow> string" where
  \<comment> \<open>\<^verbatim>\<open>path.basename(p, ext)\<close> with a non-empty \<open>ext\<close>\<close>
  "path_basename p ext =
     (if ext = p then []
      else
        let b = rev (takeWhile (\<lambda>c. c \<noteq> CHR ''/'') (dropWhile (\<lambda>c. c = CHR ''/'') (rev p)))
        in if b = [] then (if length ext \<le> length p then p else [])
           else if suffix ext b \<and> b \<noteq> ext then take (length b - length ext) b
           else b)"

definition path_segs :: "string \<Rightarrow> string list" where
  \<comment> \<open>the directory names an absolute, normalized path walks through\<close>
  "path_segs p = filter (\<lambda>s. s \<noteq> []) (split_on CHR ''/'' p)"

definition has_trailing_slash :: "string \<Rightarrow> bool" where
  "has_trailing_slash p = (path_segs p \<noteq> [] \<and> last p = CHR ''/'')"

definition inside :: "string \<Rightarrow> string \<Rightarrow> bool" where
  \<comment> \<open>\<open>p\<close> is the directory \<open>root\<close> or lies below it\<close>
  "inside root p = prefix (path_segs root) (path_segs p)"

section \<open>The file system\<close>

text \<open>
  The file system is a tree; a directory lists its entries in the order
  \<^verbatim>\<open>readdirSync\<close> reports them. The \<^verbatim>\<open>fs\<close> calls of the source take absolute paths
  (every path is \<^verbatim>\<open>path.join\<close> of the workspace directory and a name) and either return
  or throw; a thrown system error is \<open>Inl\<close> of its message, which the model writes as
  the error code, the system call and the path.
\<close>

datatype dirent = FileEnt string string | DirEnt string "dirent list" | OtherEnt string

type_synonym filesys = "dirent list"

fun ent_name :: "dirent \<Rightarrow> string" where
  "ent_name (FileEnt n c) = n"
| "ent_name (DirEnt n es) = n"
| "ent_name (OtherEnt n) = n"

definition sys_error :: "string \<Rightarrow> string \<Rightarrow> string \<Rightarrow> string" where
  "sys_error code syscall p = code @ '': '' @ syscall @ '' '' @ p"

definition fs_find :: "filesys \<Rightarrow> string \<Rightarrow> dirent option" where
  "fs_find es n = find (\<lambda>e. ent_name e = n) es"

fun fs_replace :: "filesys \<Rightarrow> dirent \<Rightarrow> filesys" where
  \<comment> \<open>put an entry in place of the first entry of the same name, or at the end\<close>
  "fs_replace [] e = [e]"
| "fs_replace (x # xs) e = (if ent_name x = ent_name e then e # xs else x # fs_replace xs e)"

fun fs_lookup :: "filesys \<Rightarrow> string list \<Rightarrow> dirent option" where
  "fs_lookup es [] = Some (DirEnt [] es)"
| "fs_lookup es (n # ns) =
     (case fs_find es n of
        None \<Rightarrow> None
      | Some (DirEnt m ch) \<Rightarrow> fs_lookup ch ns
      | Some e \<Rightarrow> if ns = [] then Some e else None)"

definition existsSync :: "filesys \<Rightarrow> string \<Rightarrow> bool" where
  "existsSync fsys p =
     (case fs_lookup fsys (path_segs p) of
        None \<Rightarrow> False
      | Some (DirEnt m ch) \<Rightarrow> True
      | Some e \<Rightarrow> \<not> has_trailing_slash p)"

definition readFileSync :: "filesys \<Rightarrow> string \<Rightarrow> string + string" where
  "readFileSync fsys p =
     (case fs_lookup fsys (path_segs p) of
        None \<Rightarrow> Inl (sys_error ''ENOENT'' ''open'' p)
      | Some (DirEnt m ch) \<Rightarrow> Inl (sys_error ''EISDIR'' ''read'' p)
      | Some (FileEnt m c) \<Rightarrow>
          if has_trailing_slash p then Inl (sys_error ''ENOTDIR'' ''open'' p) else Inr c
      | Some (OtherEnt m) \<Rightarrow> Inl (sys_error ''ENXIO'' ''open'' p))"

fun fs_mkdirp :: "filesys \<Rightarrow> string list \<Rightarrow> string \<Rightarrow> string + filesys" where
  \<comment> \<open>\<^verbatim>\<open>mkdirSync(p, { recursive: true })\<close> along the segments of \<open>p\<close>\<close>
  "fs_mkdirp es [] p = Inr es"
| "fs_mkdirp es (n # ns) p =
     (case fs_find es n of
        None \<Rightarrow>
          (case fs_mkdirp [] ns p of
             Inl e \<Rightarrow> Inl e
           | Inr ch \<Rightarrow> Inr (es @ [DirEnt n ch]))
      | Some (DirEnt m ch) \<Rightarrow>
          (case fs_mkdirp ch ns p of
             Inl e \<Rightarrow> Inl e
           | Inr ch' \<Rightarrow> Inr (fs_replace es (DirEnt n ch')))
      | Some e \<Rightarrow> Inl (sys_error (if ns = [] then ''EEXIST'' else ''ENOTDIR'') ''mkdir'' p))"

definition mkdirSync :: "filesys \<Rightarrow> string \<Rightarrow> string + filesys" where
  "mkdirSync fsys p = fs_mkdirp fsys (path_segs p) p"

fun fs_write :: "filesys \<Rightarrow> string list \<Rightarrow> string \<Rightarrow> string \<Rightarrow> string + filesys" where
  \<comment> \<open>\<^verbatim>\<open>writeFileSync(p, c)\<close>: the parent directory must exist, the target must not be a directory\<close>
  "fs_write es [] c p = Inl (sys_error ''EISDIR'' ''open'' p)"
| "fs_write es [n] c p =
     (case fs_find es n of
        None \<Rightarrow> Inr (es @ [FileEnt n c])
      | Some (FileEnt m c') \<Rightarrow> Inr (fs_replace es (FileEnt n c))
      | Some (DirEnt m ch) \<Rightarrow> Inl (sys_error ''EISDIR'' ''open'' p)
      | Some (OtherEnt m) \<Rightarrow> Inl (sys_error ''ENXIO'' ''open'' p))"
| "fs_write es (n # ns) c p =
     (case fs_find es n of
        None \<Rightarrow> Inl (sys_error ''ENOENT'' ''open'' p)
      | Some (DirEnt m ch) \<Rightarrow>
          (case fs_write ch ns c p of
             Inl e \<Rightarrow> Inl e
           | Inr ch' \<Rightarrow> Inr (fs_replace es (DirEnt n ch')))
      | Some e \<Rightarrow> Inl (sys_error ''ENOTDIR'' ''open'' p))"

definition writeFileSync :: "filesys \<Rightarrow> string \<Rightarrow> string \<Rightarrow> string + filesys" where
  "writeFileSync fsys p c =
     (if has_trailing_slash p then Inl (sys_error ''EISDIR'' ''open'' p)
      else fs_write fsys (path_segs p) c p)"

fun fs_remove :: "filesys \<Rightarrow> string list \<Rightarrow> filesys" where
  \<comment> \<open>remove the entry at a path together with everything below it\<close>
  "fs_remove es [] = []"
| "fs_remove es [n] = filter (\<lambda>e. ent_name e \<noteq> n) es"
| "fs_remove es (n # ns) =
     map (\<lambda>e. case e of DirEnt m ch \<Rightarrow> if m = n then DirEnt m (fs_remove ch ns) else e | _ \<Rightarrow> e) es"

definition rmSync :: "(string \<Rightarrow> bool) \<Rightarrow> filesys \<Rightarrow> string \<Rightarrow> string + filesys" where
  \<comment> \<open>\<^verbatim>\<open>rmSync(p, { recursive: true, force: true })\<close>; the first argument says where the
      operating system refuses the removal\<close>
  "rmSync refuses fsys p =
     (if refuses p then Inl (sys_error ''EPERM'' ''rm'' p) else Inr (fs_remove fsys (path_segs p)))"

definition mkdtempSync :: "filesys \<Rightarrow> string \<Rightarrow> string \<Rightarrow> string + (string \<times> filesys)" where
  \<comment> \<open>\<^verbatim>\<open>mkdtempSync(prefix)\<close>; \<open>sfx\<close> is the six characters the operating system appends\<close>
  "mkdtempSync fsys pre sfx =
     (let p = pre @ sfx in
      case fs_lookup fsys (path_segs (path_dirname p)) of
        Some (DirEnt m ch) \<Rightarrow>
          (if fs_lookup fsys (path_segs p) = None
           then (case mkdirSync fsys p of Inl e \<Rightarrow> Inl e | Inr f \<Rightarrow> Inr (p, f))
           else Inl (sys_error ''EEXIST'' ''mkdtemp'' p))
      | _ \<Rightarrow> Inl (sys_error ''ENOENT'' ''mkdtemp'' p))"

section \<open>Sessions, processes and events\<close>

text \<open>
  One WebSocket connection is one session. Its handlers share the two variables
  \<^verbatim>\<open>proc\<close> and \<^verbatim>\<open>workdir\<close> (\<^verbatim>\<open>index.js\<close> lines 208-209). \<^verbatim>\<open>proc\<close> is \<^verbatim>\<open>null\<close> or a
  child-process object, modelled as an index into the table of the processes spawned
  so far; \<^verbatim>\<open>workdir\<close> is \<^verbatim>\<open>null\<close> or a path returned by \<^verbatim>\<open>mkdtempSync\<close>, which is never
  the empty string, so the test \<^verbatim>\<open>if (workdir)\<close> is the test for \<^verbatim>\<open>null\<close>.

  A handler runs to completion before the next event is taken, except at an
  \<^verbatim>\<open>await\<close>: the \<^verbatim>\<open>run\<close> handler of a compiled language suspends at
  \<^verbatim>\<open>await runCommand(...)\<close> and is resumed when the compiler process closes. A
  suspended handler is a \<open>frame\<close> holding its local constants; the shared variables are
  read again when it resumes.
\<close>

record source_file =
  file_name :: "string option"
  file_content :: "string option"

text \<open>
  A frame of the client is a text that does not parse (\<open>InvalidJSON\<close>), the text \<^verbatim>\<open>null\<close>
  (\<open>JsonNull\<close>: \<^verbatim>\<open>JSON.parse\<close> returns \<^verbatim>\<open>null\<close>), a \<^verbatim>\<open>run\<close>, \<^verbatim>\<open>input\<close> or \<^verbatim>\<open>terminate\<close>
  message, or any other JSON value, whose \<^verbatim>\<open>type\<close> is none of these (\<open>OtherMsg\<close>; the
  \<^verbatim>\<open>preview\<close> messages are among them, they use neither \<^verbatim>\<open>proc\<close> nor \<^verbatim>\<open>workdir\<close>).
\<close>

datatype msg =
    InvalidJSON
  | JsonNull
  | Run "string option" "source_file list" "string option"
  | Input "string option"
  | Terminate
  | OtherMsg

datatype exit_data = ExitCode "int option" | ExitTerminated

datatype out_event = Stdout string | Stderr string | Exit exit_data | Error string

datatype effect =
    Send out_event
  | Kill nat
  | Rm string
  | Mkdtemp string
  | Mkdir string
  | WriteFile string string
  | Spawn string "string list" "string option"
  | RunCommand string "string list" "string option"
  | StdinWrite nat string

datatype compiled = Java | C | Cpp

record frame =
  fr_language :: compiled
  fr_files :: "source_file list"
  fr_entryFile :: string
  fr_done :: bool

record proc_info =
  p_cmd :: string
  p_args :: "string list"
  p_cwd :: "string option"
  p_running :: bool
  p_killed :: bool
  p_writable :: bool
  p_closed :: bool

record env =
  win32 :: bool
  tmpdir :: string
  rm_fails :: "string \<Rightarrow> bool"

record state =
  proc :: "nat option"
  workdir :: "string option"
  fsys :: filesys
  procs :: "proc_info list"
  frames :: "frame list"
  effects :: "effect list"
  crashed :: bool

text \<open>
  What the environment decides: the outcome of a \<^verbatim>\<open>spawn\<close> call (the child runs; the
  child object exists but the executable could not be started, which Node reports later
  through the \<^verbatim>\<open>error\<close> event; or the call throws), and the events of a session.

  An event \<open>Message m sfx sp\<close> is a message of the client, with the random suffix that
  \<^verbatim>\<open>mkdtempSync\<close> would draw and the outcome of the \<^verbatim>\<open>spawn\<close> call that the handler may
  reach. \<open>CompileClose k code err sp\<close> resolves the promise on which the \<open>k\<close>-th suspended
  handler waits, with \<^verbatim>\<open>compile.code\<close> and \<^verbatim>\<open>compile.stderr\<close>. The other events are those
  of the spawned process \<open>i\<close> (its output, its end, its \<^verbatim>\<open>close\<close> and \<^verbatim>\<open>error\<close> events,
  and the \<^verbatim>\<open>error\<close> event of its stdin stream after a write that failed) and the close
  of the connection. The handlers of a process read the shared variables \<^verbatim>\<open>proc\<close> and
  \<^verbatim>\<open>workdir\<close>, not the process they were registered on.

  An exception that no handler catches, or a rejected promise that nothing handles, ends
  the Node process (Node 20 in the repository's Dockerfile): the server is down
  (\<open>crashed\<close>), no further event is handled, and nothing is cleaned up. The code has two
  such places. The test \<^verbatim>\<open>msg.type === 'run'\<close> (\<^verbatim>\<open>index.js\<close> line 221) is outside every
  \<^verbatim>\<open>try\<close> block and throws when \<^verbatim>\<open>msg\<close> is \<^verbatim>\<open>null\<close>, which rejects the promise of the
  \<^verbatim>\<open>async\<close> handler. And no listener is registered for the \<^verbatim>\<open>error\<close> event of
  \<^verbatim>\<open>proc.stdin\<close>, which Node emits when a write fails (\<^verbatim>\<open>EPIPE\<close>: the child has closed
  its stdin).
\<close>

datatype spawn_outcome = SpawnOk | SpawnFails | SpawnThrows string

datatype event =
    Message msg string spawn_outcome
  | CompileClose nat "int option" string spawn_outcome
  | ProcStdout nat string
  | ProcStderr nat string
  | ProcExit nat
  | ProcClose nat "int option"
  | ProcError nat string
  | StdinError nat
  | ConnClose

definition init :: "filesys \<Rightarrow> state" where
  "init f = \<lparr>proc = None, workdir = None, fsys = f, procs = [], frames = [], effects = [],
              crashed = False\<rparr>"

definition crash :: "state \<Rightarrow> state" where
  \<comment> \<open>an uncaught exception: the Node process ends\<close>
  "crash s = s\<lparr>crashed := True\<rparr>"

definition emit :: "effect \<Rightarrow> state \<Rightarrow> state" where
  "emit e s = s\<lparr>effects := effects s @ [e]\<rparr>"

definition send :: "out_event \<Rightarrow> state \<Rightarrow> state" where
  \<comment> \<open>the call \<^verbatim>\<open>ws.send(JSON.stringify({ type, data }))\<close>\<close>
  "send ev s = emit (Send ev) s"

definition killed :: "state \<Rightarrow> nat \<Rightarrow> bool" where
  "killed s i = (i < length (procs s) \<and> p_killed (procs s ! i))"

definition running :: "state \<Rightarrow> nat \<Rightarrow> bool" where
  "running s i = (i < length (procs s) \<and> p_running (procs s ! i))"

definition writable :: "state \<Rightarrow> nat \<Rightarrow> bool" where
  "writable s i = (i < length (procs s) \<and> p_writable (procs s ! i))"

definition kill :: "nat \<Rightarrow> state \<Rightarrow> state" where
  \<comment> \<open>\<^verbatim>\<open>proc.kill('SIGKILL')\<close>: a running child receives the signal and dies, and only then
      is its \<^verbatim>\<open>killed\<close> flag set\<close>
  "kill i s =
     (if running s i
      then emit (Kill i) (s\<lparr>procs := (procs s)[i := (procs s ! i)\<lparr>p_running := False, p_killed := True\<rparr>]\<rparr>)
      else emit (Kill i) s)"

definition cleanupProcess :: "env \<Rightarrow> nat option \<Rightarrow> string option \<Rightarrow> state \<Rightarrow> state" where
  \<comment> \<open>\<^verbatim>\<open>index.js\<close> lines 133-144\<close>
  "cleanupProcess E p w s =
     (let s1 = (case p of None \<Rightarrow> s | Some i \<Rightarrow> if killed s i then s else kill i s)
      in case w of
           None \<Rightarrow> s1
         | Some d \<Rightarrow>
             (case rmSync (rm_fails E) (fsys s1) d of
                Inl e \<Rightarrow> emit (Rm d) s1
              | Inr f \<Rightarrow> emit (Rm d) (s1\<lparr>fsys := f\<rparr>)))"

definition reset :: "state \<Rightarrow> state" where
  \<comment> \<open>\<^verbatim>\<open>proc = null; workdir = null;\<close>\<close>
  "reset s = s\<lparr>proc := None, workdir := None\<rparr>"

definition cleanup :: "env \<Rightarrow> state \<Rightarrow> state" where
  \<comment> \<open>the three statements \<^verbatim>\<open>cleanupProcess(proc, workdir); proc = null; workdir = null;\<close>\<close>
  "cleanup E s = reset (cleanupProcess E (proc s) (workdir s) s)"

definition resolvePythonCommand :: "env \<Rightarrow> string" where
  "resolvePythonCommand E = (if win32 E then ''python'' else ''python3'')"

definition spawn_proc ::
  "spawn_outcome \<Rightarrow> string \<Rightarrow> string list \<Rightarrow> string option \<Rightarrow> state \<Rightarrow> state \<times> string option" where
  \<comment> \<open>\<^verbatim>\<open>proc = spawn(cmd, args, { cwd, stdio })\<close>; the second component is the message of
      a thrown exception\<close>
  "spawn_proc sp cmd args cwd s =
     (case sp of
        SpawnThrows m \<Rightarrow> (s, Some m)
      | SpawnOk \<Rightarrow>
          (emit (Spawn cmd args cwd)
             (s\<lparr>procs := procs s @ [\<lparr>p_cmd = cmd, p_args = args, p_cwd = cwd, p_running = True,
                                     p_killed = False, p_writable = True, p_closed = False\<rparr>],
                proc := Some (length (procs s))\<rparr>), None)
      | SpawnFails \<Rightarrow>
          (emit (Spawn cmd args cwd)
             (s\<lparr>procs := procs s @ [\<lparr>p_cmd = cmd, p_args = args, p_cwd = cwd, p_running = False,
                                     p_killed = False, p_writable = False, p_closed = False\<rparr>],
                proc := Some (length (procs s))\<rparr>), None))"

definition source_names :: "(string \<Rightarrow> bool) \<Rightarrow> source_file list \<Rightarrow> string list" where
  \<comment> \<open>\<^verbatim>\<open>files.map(f => f.name).filter(n => n && P(n))\<close>\<close>
  "source_names P fls = filter (\<lambda>n. n \<noteq> [] \<and> P n) (List.map_filter file_name fls)"

definition type_error_path :: string where
  \<comment> \<open>the message, abridged, of the TypeError that \<^verbatim>\<open>path.join\<close> throws on an argument
      that is not a string\<close>
  "type_error_path = ''The path argument must be of type string''"

section \<open>\<^verbatim>\<open>index.js\<close>: the Java entry class\<close>

definition pkgRegex :: rx where
  \<comment> \<open>\<^verbatim>\<open>/^\s*package\s+([\w.]+)\s*;/m\<close>\<close>
  "pkgRegex = seqs [Bol, sp0, Lit ''package'', sp1, Grp 1 (Plus (Cls is_word_dot)), sp0, Lit '';'']"

definition hasMainRegex :: rx where
  \<comment> \<open>\<^verbatim>\<open>/static\s+void\s+main\s*\(\s*String\s*\[\]\s*\w*\s*\)/\<close>\<close>
  "hasMainRegex = seqs [Lit ''static'', sp1, Lit ''void'', sp1, Lit ''main'', sp0, Lit ''('', sp0,
     Lit ''String'', sp0, Lit ''[]'', sp0, Star (Cls is_word), sp0, Lit '')'']"

definition classMatchRegex :: rx where
  \<comment> \<open>\<^verbatim>\<open>/^\s*(public\s+)?class\s+(\w+)/m\<close>\<close>
  "classMatchRegex = seqs [Bol, sp0, Opt (Grp 1 (Seq (Lit ''public'') sp1)), Lit ''class'', sp1,
     Grp 2 (Plus (Cls is_word))]"

definition match_pkg :: "string \<Rightarrow> string" where
  \<comment> \<open>\<^verbatim>\<open>pkgMatch ? pkgMatch[1] : ''\<close>\<close>
  "match_pkg content =
     (case rx_match pkgRegex content of None \<Rightarrow> [] | Some c \<Rightarrow> or_empty (map_of c 1))"

definition qualify :: "string \<Rightarrow> string \<Rightarrow> string" where
  \<comment> \<open>\<^verbatim>\<open>pkg ? `${pkg}.${className}` : className\<close>\<close>
  "qualify pkg className = (if pkg \<noteq> [] then pkg @ ''.'' @ className else className)"

fun findJavaMainClass_loop ::
  "filesys \<Rightarrow> string \<Rightarrow> string \<Rightarrow> string \<Rightarrow> string list \<Rightarrow> string" where
  \<comment> \<open>\<^verbatim>\<open>index.js\<close> lines 183-204: the loop over \<^verbatim>\<open>javaFiles\<close>, with \<^verbatim>\<open>fallbackPackage\<close> as
      an argument, and the final \<^verbatim>\<open>return\<close>\<close>
  "findJavaMainClass_loop f w entryFile fallbackPackage [] =
     qualify fallbackPackage (path_basename entryFile ''.java'')"
| "findJavaMainClass_loop f w entryFile fallbackPackage (fl # rest) =
     (case readFileSync f (path_join w fl) of
        Inl e \<Rightarrow> findJavaMainClass_loop f w entryFile fallbackPackage rest
      | Inr content \<Rightarrow>
          (let pkg = match_pkg content;
               fallbackPackage' = (if fl = entryFile then pkg else fallbackPackage);
               hasMain = rx_test hasMainRegex content;
               className = (case rx_match classMatchRegex content of
                              None \<Rightarrow> None | Some c \<Rightarrow> map_of c 2)
           in (case className of
                 Some cn \<Rightarrow>
                   if hasMain \<and> cn \<noteq> [] then qualify pkg cn
                   else findJavaMainClass_loop f w entryFile fallbackPackage' rest
               | None \<Rightarrow> findJavaMainClass_loop f w entryFile fallbackPackage' rest)))"

definition findJavaMainClass ::
  "filesys \<Rightarrow> source_file list \<Rightarrow> string option \<Rightarrow> string \<Rightarrow> string + string" where
  \<comment> \<open>\<^verbatim>\<open>index.js\<close> lines 178-205. When \<^verbatim>\<open>workdir\<close> is \<^verbatim>\<open>null\<close> the first
      \<^verbatim>\<open>path.join(workdir, file)\<close> throws.\<close>
  "findJavaMainClass f fls w entryFile =
     (let javaFiles = source_names (\<lambda>n. endsWith n ''.java'') fls in
      case w of
        None \<Rightarrow>
          if javaFiles = [] then Inr (path_basename entryFile ''.java'') else Inl type_error_path
      | Some d \<Rightarrow> Inr (findJavaMainClass_loop f d entryFile [] javaFiles))"

section \<open>\<^verbatim>\<open>index.js\<close>: the message handlers\<close>

definition esmRegex :: rx where
  \<comment> \<open>\<^verbatim>\<open>/\b(import\s+|export\s+)/\<close>\<close>
  "esmRegex = Seq Bnd (Grp 1 (Alt (Seq (Lit ''import'') sp1) (Seq (Lit ''export'') sp1)))"

definition package_json :: string where
  \<comment> \<open>\<^verbatim>\<open>JSON.stringify({ type: 'module' })\<close>\<close>
  \<open>package_json = ''{"type":"module"}''\<close>

fun materialize :: "string \<Rightarrow> source_file list \<Rightarrow> state \<Rightarrow> state \<times> string option" where
  \<comment> \<open>\<^verbatim>\<open>index.js\<close> lines 229-235; the second component is the message of a thrown error\<close>
  "materialize w [] s = (s, None)"
| "materialize w (fl # rest) s =
     (if \<not> truthy (file_name fl) then materialize w rest s
      else
        let filePath = path_join w (or_empty (file_name fl));
            dir = path_dirname filePath
        in case mkdirSync (fsys s) dir of
             Inl e \<Rightarrow> (s, Some e)
           | Inr f1 \<Rightarrow>
               let s1 = emit (Mkdir dir) (s\<lparr>fsys := f1\<rparr>) in
               (case writeFileSync f1 filePath (or_empty (file_content fl)) of
                  Inl e \<Rightarrow> (s1, Some e)
                | Inr f2 \<Rightarrow>
                    materialize w rest
                      (emit (WriteFile filePath (or_empty (file_content fl))) (s1\<lparr>fsys := f2\<rparr>))))"

definition entry_file :: "string option \<Rightarrow> source_file list \<Rightarrow> string option" where
  \<comment> \<open>\<^verbatim>\<open>msg.main || (files[0] ? files[0].name : 'main.py')\<close>\<close>
  "entry_file main fls =
     (if truthy main then main
      else (case fls of [] \<Rightarrow> Some ''main.py'' | fl # rest \<Rightarrow> file_name fl))"

definition language_text :: "string option \<Rightarrow> string" where
  "language_text l = (case l of None \<Rightarrow> ''undefined'' | Some x \<Rightarrow> x)"

definition output_name :: "env \<Rightarrow> string" where
  "output_name E = (if win32 E then ''app.exe'' else ''app.out'')"

definition suspend :: "compiled \<Rightarrow> source_file list \<Rightarrow> string \<Rightarrow> state \<Rightarrow> state" where
  \<comment> \<open>the handler stops at \<^verbatim>\<open>await runCommand(...)\<close>\<close>
  "suspend l fls entryFile s =
     s\<lparr>frames := frames s @ [\<lparr>fr_language = l, fr_files = fls, fr_entryFile = entryFile,
                              fr_done = False\<rparr>]\<rparr>"

definition is_cpp_name :: "string \<Rightarrow> bool" where
  "is_cpp_name n = (endsWith n ''.cpp'' \<or> endsWith n ''.cc'' \<or> endsWith n ''.cxx'')"

definition useEsm :: "filesys \<Rightarrow> string \<Rightarrow> bool" where
  \<comment> \<open>\<^verbatim>\<open>index.js\<close> lines 256-262\<close>
  "useEsm f entryPath =
     (case readFileSync f entryPath of
        Inl e \<Rightarrow> False
      | Inr entryContent \<Rightarrow> rx_test esmRegex entryContent)"

definition run_dispatch ::
  "env \<Rightarrow> spawn_outcome \<Rightarrow> string option \<Rightarrow> source_file list \<Rightarrow> string \<Rightarrow> string \<Rightarrow> string \<Rightarrow> state
     \<Rightarrow> state \<times> string option" where
  \<comment> \<open>\<^verbatim>\<open>index.js\<close> lines 248-335, up to the point where a process has been spawned or the
      handler waits for the compiler. \<^verbatim>\<open>spawn\<close> returns a child object or throws, so the
      test \<^verbatim>\<open>if (!proc)\<close> of line 337 never holds.\<close>
  "run_dispatch E sp language fls entryFile entryPath w s =
     (if language = Some ''python'' then
        spawn_proc sp (resolvePythonCommand E) [''-u'', entryFile] (Some w) s
      else if language = Some ''node'' then
        (let s1 = (if useEsm (fsys s) entryPath then
                     (case writeFileSync (fsys s) (path_join w ''package.json'') package_json of
                        Inl e \<Rightarrow> s
                      | Inr f \<Rightarrow> emit (WriteFile (path_join w ''package.json'') package_json)
                                  (s\<lparr>fsys := f\<rparr>))
                   else s)
         in spawn_proc sp ''node'' [entryFile] (Some w) s1)
      else if language = Some ''java'' then
        (suspend Java fls entryFile
           (emit (RunCommand ''javac'' (source_names (\<lambda>n. endsWith n ''.java'') fls) (Some w)) s),
         None)
      else if language = Some ''c'' then
        (suspend C fls entryFile
           (emit (RunCommand ''gcc''
                    (source_names (\<lambda>n. endsWith n ''.c'') fls @ [''-o'', output_name E]) (Some w)) s),
         None)
      else if language = Some ''cpp'' then
        (suspend Cpp fls entryFile
           (emit (RunCommand ''g++'' (source_names is_cpp_name fls @ [''-o'', output_name E]) (Some w)) s),
         None)
      else if language = Some ''prolog'' then
        spawn_proc sp ''swipl'' [''-q'', ''-s'', entryFile] (Some w) s
      else if language = Some ''ruby'' then
        spawn_proc sp ''ruby'' [entryFile] (Some w) s
      else
        (cleanup E (send (Error (''Language not supported: '' @ language_text language)) s), None))"

datatype prepared = Thrown state string | NoEntry state string | Ready state string string

definition prepare ::
  "env \<Rightarrow> string \<Rightarrow> source_file list \<Rightarrow> string option \<Rightarrow> state \<Rightarrow> prepared" where
  \<comment> \<open>\<^verbatim>\<open>index.js\<close> lines 227-240: the workspace is created and filled, and the entry file
      is looked up. The result is the state with the message of a thrown error, or with
      the name of a missing entry file, or with the workspace and the entry file.\<close>
  "prepare E sfx fls main s =
     (case mkdtempSync (fsys s) (path_join (tmpdir E) ''code-sync-'') sfx of
        Inl e \<Rightarrow> Thrown s e
      | Inr (w, f) \<Rightarrow>
          (case materialize w fls (emit (Mkdtemp w) (s\<lparr>workdir := Some w, fsys := f\<rparr>)) of
             (s2, Some e) \<Rightarrow> Thrown s2 e
           | (s2, None) \<Rightarrow>
               (case entry_file main fls of
                  None \<Rightarrow> Thrown s2 type_error_path
                | Some entryFile \<Rightarrow>
                    if existsSync (fsys s2) (path_join w entryFile) then Ready s2 w entryFile
                    else NoEntry s2 entryFile)))"

definition run_try ::
  "env \<Rightarrow> string \<Rightarrow> spawn_outcome \<Rightarrow> string option \<Rightarrow> source_file list \<Rightarrow> string option \<Rightarrow> state
     \<Rightarrow> state \<times> string option" where
  \<comment> \<open>the body of the \<^verbatim>\<open>try\<close> block, \<^verbatim>\<open>index.js\<close> lines 227-335\<close>
  "run_try E sfx sp language fls main s =
     (case prepare E sfx fls main s of
        Thrown s1 e \<Rightarrow> (s1, Some e)
      | NoEntry s1 entryFile \<Rightarrow>
          (cleanup E (send (Error (''Entry file not found: '' @ entryFile)) s1), None)
      | Ready s1 w entryFile \<Rightarrow>
          run_dispatch E sp language fls entryFile (path_join w entryFile) w s1)"

definition catch_run :: "env \<Rightarrow> state \<times> string option \<Rightarrow> state" where
  \<comment> \<open>the \<^verbatim>\<open>catch\<close> block, \<^verbatim>\<open>index.js\<close> lines 367-372\<close>
  "catch_run E r =
     (case r of
        (s, None) \<Rightarrow> s
      | (s, Some m) \<Rightarrow> cleanup E (send (Error (''Runtime error: '' @ m)) s))"

definition handle_run ::
  "env \<Rightarrow> string \<Rightarrow> spawn_outcome \<Rightarrow> string option \<Rightarrow> source_file list \<Rightarrow> string option \<Rightarrow> state
     \<Rightarrow> state" where
  \<comment> \<open>\<^verbatim>\<open>index.js\<close> lines 221-374, until the handler returns or suspends\<close>
  "handle_run E sfx sp language fls main s =
     catch_run E (run_try E sfx sp language fls main (cleanup E s))"

definition compile_failed_text :: "compiled \<Rightarrow> string" where
  "compile_failed_text l =
     (case l of Java \<Rightarrow> ''Java compilation failed'' | C \<Rightarrow> ''C compilation failed''
      | Cpp \<Rightarrow> ''C++ compilation failed'')"

definition after_compile ::
  "env \<Rightarrow> frame \<Rightarrow> int option \<Rightarrow> string \<Rightarrow> spawn_outcome \<Rightarrow> state \<Rightarrow> state \<times> string option" where
  \<comment> \<open>what follows \<^verbatim>\<open>await runCommand(...)\<close>: \<^verbatim>\<open>index.js\<close> lines 277-288, 293-303, 308-318.
      \<open>code\<close> and \<open>err\<close> are \<^verbatim>\<open>compile.code\<close> and \<^verbatim>\<open>compile.stderr\<close>.\<close>
  "after_compile E fr code err sp s =
     (if code \<noteq> Some 0 then
        (cleanup E (send (Error (if err \<noteq> [] then err else compile_failed_text (fr_language fr))) s),
         None)
      else if fr_language fr = Java then
        (case findJavaMainClass (fsys s) (fr_files fr) (workdir s) (fr_entryFile fr) of
           Inl m \<Rightarrow> (s, Some m)
         | Inr mainClass \<Rightarrow>
             spawn_proc sp ''java''
               [''-cp'', (case workdir s of None \<Rightarrow> ''null'' | Some w \<Rightarrow> w), mainClass] (workdir s) s)
      else
        (case workdir s of
           None \<Rightarrow> (s, Some type_error_path)
         | Some w \<Rightarrow> spawn_proc sp (path_join w (output_name E)) [] (Some w) s))"

definition resume ::
  "env \<Rightarrow> nat \<Rightarrow> int option \<Rightarrow> string \<Rightarrow> spawn_outcome \<Rightarrow> state \<Rightarrow> state" where
  \<comment> \<open>the compiler of frame \<open>k\<close> has closed: its handler continues inside the same
      \<^verbatim>\<open>try\<close> block\<close>
  "resume E k code err sp s =
     (if k < length (frames s) \<and> \<not> fr_done (frames s ! k)
      then catch_run E (after_compile E (frames s ! k) code err sp
                          (s\<lparr>frames := (frames s)[k := (frames s ! k)\<lparr>fr_done := True\<rparr>]\<rparr>))
      else s)"

definition handle_input :: "string option \<Rightarrow> state \<Rightarrow> state" where
  \<comment> \<open>\<^verbatim>\<open>index.js\<close> lines 434-439. The write is asynchronous: when it fails, the stream
      reports it later by its \<^verbatim>\<open>error\<close> event (\<open>on_stdin_error\<close> below).\<close>
  "handle_input d s =
     (case proc s of
        None \<Rightarrow> s
      | Some i \<Rightarrow> if writable s i then emit (StdinWrite i (or_empty d @ [CHR 0x0A])) s else s)"

definition handle_terminate :: "env \<Rightarrow> state \<Rightarrow> state" where
  \<comment> \<open>\<^verbatim>\<open>index.js\<close> lines 441-447\<close>
  "handle_terminate E s = send (Exit ExitTerminated) (cleanup E s)"

definition handle_close :: "env \<Rightarrow> state \<Rightarrow> state" where
  \<comment> \<open>\<^verbatim>\<open>ws.on('close')\<close>, \<^verbatim>\<open>index.js\<close> lines 450-457; the preview table is not modelled\<close>
  "handle_close E s = cleanup E s"

definition on_proc_close :: "env \<Rightarrow> nat \<Rightarrow> int option \<Rightarrow> state \<Rightarrow> state" where
  \<comment> \<open>\<^verbatim>\<open>proc.on('close')\<close>, \<^verbatim>\<open>index.js\<close> lines 353-358, for a child that has ended\<close>
  "on_proc_close E i code s =
     (if i < length (procs s) \<and> \<not> p_running (procs s ! i) \<and> \<not> p_closed (procs s ! i)
      then cleanup E (send (Exit (ExitCode code))
                        (s\<lparr>procs := (procs s)[i := (procs s ! i)\<lparr>p_closed := True\<rparr>]\<rparr>))
      else s)"

definition on_proc_error :: "env \<Rightarrow> nat \<Rightarrow> string \<Rightarrow> state \<Rightarrow> state" where
  \<comment> \<open>\<^verbatim>\<open>proc.on('error')\<close>, \<^verbatim>\<open>index.js\<close> lines 360-365\<close>
  "on_proc_error E i m s =
     (if i < length (procs s)
      then cleanup E (send (Error (''Failed to start runtime: '' @ m)) s)
      else s)"

definition on_proc_exit :: "nat \<Rightarrow> state \<Rightarrow> state" where
  \<comment> \<open>a running child ends by itself; Node then destroys its stdin stream\<close>
  "on_proc_exit i s =
     (if running s i
      then s\<lparr>procs := (procs s)[i := (procs s ! i)\<lparr>p_running := False, p_writable := False\<rparr>]\<rparr>
      else s)"

fun handle_message :: "env \<Rightarrow> msg \<Rightarrow> string \<Rightarrow> spawn_outcome \<Rightarrow> state \<Rightarrow> state" where
  \<comment> \<open>\<^verbatim>\<open>ws.on('message')\<close>, \<^verbatim>\<open>index.js\<close> lines 212-448, without the \<^verbatim>\<open>preview\<close> branch.
      For \<^verbatim>\<open>null\<close> the test of line 221 throws a TypeError that nothing catches.\<close>
  "handle_message E InvalidJSON sfx sp s = send (Error ''Invalid JSON message'') s"
| "handle_message E JsonNull sfx sp s = crash s"
| "handle_message E (Run language fls main) sfx sp s = handle_run E sfx sp language fls main s"
| "handle_message E (Input d) sfx sp s = handle_input d s"
| "handle_message E Terminate sfx sp s = handle_terminate E s"
| "handle_message E OtherMsg sfx sp s = s"

fun stdin_written :: "nat \<Rightarrow> effect list \<Rightarrow> bool" where
  \<comment> \<open>something has been written to the stdin of process \<open>i\<close>\<close>
  "stdin_written i [] = False"
| "stdin_written i (StdinWrite j d # es) = (j = i \<or> stdin_written i es)"
| "stdin_written i (e # es) = stdin_written i es"

definition on_stdin_error :: "nat \<Rightarrow> state \<Rightarrow> state" where
  \<comment> \<open>a write of line 436 has failed: the stream emits \<^verbatim>\<open>error\<close>, which has no listener\<close>
  "on_stdin_error i s = (if stdin_written i (effects s) then crash s else s)"

fun step :: "env \<Rightarrow> state \<Rightarrow> event \<Rightarrow> state" where
  "step E s (Message m sfx sp) = handle_message E m sfx sp s"
| "step E s (CompileClose k code err sp) = resume E k code err sp s"
| "step E s (ProcStdout i d) = (if i < length (procs s) then send (Stdout d) s else s)"
| "step E s (ProcStderr i d) = (if i < length (procs s) then send (Stderr d) s else s)"
| "step E s (ProcExit i) = on_proc_exit i s"
| "step E s (ProcClose i code) = on_proc_close E i code s"
| "step E s (ProcError i m) = on_proc_error E i m s"
| "step E s (StdinError i) = on_stdin_error i s"
| "step E s ConnClose = handle_close E s"

text \<open>
  The events of a session are handled one after the other while the server is up.
\<close>

fun run_events :: "env \<Rightarrow> state \<Rightarrow> event list \<Rightarrow> state" where
  "run_events E s [] = s"
| "run_events E s (ev # evs) = (if crashed s then s else run_events E (step E s ev) evs)"

inductive reachable :: "env \<Rightarrow> state \<Rightarrow> bool" for E :: env where
  start: "reachable E (init f)"
| next_event: "reachable E s \<Longrightarrow> \<not> crashed s \<Longrightarrow> reachable E (step E s ev)"

definition alive :: "state \<Rightarrow> nat list" where
  \<comment> \<open>the spawned run processes that are still running\<close>
  "alive s = filter (running s) [0..<length (procs s)]"

fun sent :: "effect list \<Rightarrow> out_event list" where
  \<comment> \<open>the events sent to the client, in order\<close>
  "sent [] = []"
| "sent (Send ev # es) = ev # sent es"
| "sent (e # es) = sent es"

fun spawned :: "effect list \<Rightarrow> (string \<times> string list) list" where
  \<comment> \<open>the run processes spawned, in order\<close>
  "spawned [] = []"
| "spawned (Spawn cmd args cwd # es) = (cmd, args) # spawned es"
| "spawned (e # es) = spawned es"

section \<open>\<^verbatim>\<open>part_000\<close>: the two-phase resolver of the Java entry class\<close>

text \<open>
  The first variant of the server kept in \<^verbatim>\<open>src/unnamed/part_000\<close> (lines 1-341) resolves
  the class to run in two phases: it probes an ordered list of candidates with
  \<^verbatim>\<open>javap\<close>, and falls back to a scan of the source text.
\<close>

definition classRegex :: rx where
  \<comment> \<open>\<^verbatim>\<open>/\b(class|record|enum)\s+([A-Za-z_]\w*)/g\<close>\<close>
  "classRegex = seqs [Bnd, Grp 1 (Alt (Lit ''class'') (Alt (Lit ''record'') (Lit ''enum''))), sp1,
     Grp 2 ident]"

definition mainSignature :: rx where
  \<comment> \<open>the second alternative of \<^verbatim>\<open>tokenRegex\<close>\<close>
  "mainSignature = seqs [Bnd,
     Alt (seqs [Lit ''public'', sp1, Lit ''static'']) (seqs [Lit ''static'', sp1, Lit ''public'']),
     sp1, Lit ''void'', sp1, Lit ''main'', sp0, Lit ''('', sp0,
     Alt (seqs [Lit ''String'', sp0, Alt (seqs [Lit ''['', sp0, Lit '']'']) (Lit ''...''), sp1, ident])
         (seqs [Lit ''String'', sp1, ident, sp0, Lit ''['', sp0, Lit '']'']),
     sp0, Lit '')'']"

definition tokenRegex :: rx where
  "tokenRegex =
     Alt (seqs [Bnd, Alt (Lit ''class'') (Alt (Lit ''record'') (Lit ''enum'')), sp1, Grp 1 ident, Bnd])
         mainSignature"

definition javapMainRegex :: rx where
  \<comment> \<open>\<^verbatim>\<open>/\bpublic\s+static\s+void\s+main\s*\(\s*java\.lang\.String\[\]\s*\)/\<close>\<close>
  "javapMainRegex = seqs [Bnd, Lit ''public'', sp1, Lit ''static'', sp1, Lit ''void'', sp1,
     Lit ''main'', sp0, Lit ''('', sp0, Lit ''java.lang.String[]'', sp0, Lit '')'']"

definition toolMissingRegex :: rx where
  \<comment> \<open>\<^verbatim>\<open>/ENOENT|not recognized/i\<close>\<close>
  "toolMissingRegex = Alt (LitI ''ENOENT'') (LitI ''not recognized'')"

record parsed =
  pkg :: string
  content :: string
  fqcnCandidates :: "string list"

definition parseJavaPackageAndClasses :: "filesys \<Rightarrow> string \<Rightarrow> string \<Rightarrow> parsed" where
  \<comment> \<open>\<^verbatim>\<open>part_000\<close> lines 56-83\<close>
  "parseJavaPackageAndClasses f wd fileName =
     (case readFileSync f (path_join wd fileName) of
        Inl e \<Rightarrow> \<lparr>pkg = [], content = [], fqcnCandidates = [path_basename fileName ''.java'']\<rparr>
      | Inr c \<Rightarrow>
          let p = match_pkg c;
              classNames = map (\<lambda>m. or_empty (map_of m 2)) (rx_exec_all classRegex None c);
              uniqueClassNames = from_set classNames;
              uniqueClassNames' = (if uniqueClassNames = [] then [path_basename fileName ''.java'']
                                   else uniqueClassNames)
          in \<lparr>pkg = p, content = c, fqcnCandidates = map (qualify p) uniqueClassNames'\<rparr>)"

fun main_tokens :: "string \<Rightarrow> string \<Rightarrow> (nat \<times> string) list list \<Rightarrow> string list" where
  \<comment> \<open>the body of the token loop, \<^verbatim>\<open>part_000\<close> lines 91-100, with \<^verbatim>\<open>currentClass\<close> as an argument\<close>
  "main_tokens p currentClass [] = []"
| "main_tokens p currentClass (token # rest) =
     (if truthy (map_of token 1) then main_tokens p (or_empty (map_of token 1)) rest
      else if currentClass \<noteq> [] then qualify p currentClass # main_tokens p currentClass rest
      else main_tokens p currentClass rest)"

definition findLikelySourceMainClasses :: "string \<Rightarrow> string \<Rightarrow> string list" where
  \<comment> \<open>\<^verbatim>\<open>part_000\<close> lines 85-103\<close>
  "findLikelySourceMainClasses p c = from_set (main_tokens p [] (rx_exec_all tokenRegex None c))"

definition path_relative :: "string \<Rightarrow> string \<Rightarrow> string" where
  \<comment> \<open>\<^verbatim>\<open>path.relative(from, to)\<close> on absolute paths\<close>
  "path_relative a b =
     (let n = length (longest_common_prefix (path_segs a) (path_segs b))
      in join_with ''/'' (replicate (length (path_segs a) - n) ''..'' @ drop n (path_segs b)))"

definition replace_chr :: "char \<Rightarrow> char \<Rightarrow> string \<Rightarrow> string" where
  "replace_chr a b s = map (\<lambda>c. if c = a then b else c) s"

definition class_fqcn :: "string \<Rightarrow> string \<Rightarrow> string" where
  \<comment> \<open>\<^verbatim>\<open>part_000\<close> lines 124-125\<close>
  "class_fqcn wd fullPath =
     (let rel = replace_chr (CHR 0x5C) CHR ''/'' (path_relative wd fullPath);
          stem = (if endsWith rel ''.class'' then take (length rel - 6) rel else rel)
      in replace_chr CHR ''/'' CHR ''.'' stem)"

fun scan_entries ::
  "string \<Rightarrow> string \<Rightarrow> dirent list \<Rightarrow> (string \<times> dirent list) list \<times> string list" where
  \<comment> \<open>the \<^verbatim>\<open>for\<close> loop over the entries of one directory, \<^verbatim>\<open>part_000\<close> lines 113-127: the
      directories pushed on the stack (each with its own entries) and the classes found\<close>
  "scan_entries wd dir [] = ([], [])"
| "scan_entries wd dir (DirEnt n ch # es) =
     (case scan_entries wd dir es of (ds, cs) \<Rightarrow> ((path_join dir n, ch) # ds, cs))"
| "scan_entries wd dir (FileEnt n c # es) =
     (case scan_entries wd dir es of (ds, cs) \<Rightarrow>
        if \<not> endsWith n ''.class'' \<or> includes_chr n CHR ''$'' then (ds, cs)
        else (ds, class_fqcn wd (path_join dir n) # cs))"
| "scan_entries wd dir (OtherEnt n # es) = scan_entries wd dir es"

definition stack_size :: "(string \<times> dirent list) list \<Rightarrow> nat" where
  "stack_size st = sum_list (map (\<lambda>(d, es). Suc (size_list size es)) st)"

lemma scan_entries_size: "stack_size (fst (scan_entries wd dir es)) \<le> size_list size es"
  by (induction wd dir es rule: scan_entries.induct)
     (auto simp: stack_size_def split: prod.splits)

lemma stack_size_rev [simp]: "stack_size (rev st) = stack_size st"
  by (simp add: stack_size_def rev_map[symmetric])

lemma stack_size_append [simp]: "stack_size (a @ b) = stack_size a + stack_size b"
  by (simp add: stack_size_def)

lemma stack_size_Cons [simp]:
  "stack_size ((d, es) # st) = Suc (size_list size es) + stack_size st"
  by (simp add: stack_size_def)

function walk :: "string \<Rightarrow> (string \<times> dirent list) list \<Rightarrow> string list \<Rightarrow> string list" where
  \<comment> \<open>the \<^verbatim>\<open>while (stack.length)\<close> loop; the top of the stack is the head of the list\<close>
  "walk wd [] classes = classes"
| "walk wd ((dir, entries) # stack) classes =
     walk wd (rev (fst (scan_entries wd dir entries)) @ stack)
       (classes @ snd (scan_entries wd dir entries))"
  by pat_completeness auto
termination
proof (relation "measure (\<lambda>(wd, st, cl). stack_size st)")
  show "wf (measure (\<lambda>(wd, st, cl). stack_size st))" by simp
next
  fix wd dir entries stack and classes :: "string list"
  have "stack_size (fst (scan_entries wd dir entries)) \<le> size_list size entries"
    by (rule scan_entries_size)
  then show "((wd, rev (fst (scan_entries wd dir entries)) @ stack,
               classes @ snd (scan_entries wd dir entries)),
              (wd, (dir, entries) # stack, classes))
             \<in> measure (\<lambda>(wd, st, cl). stack_size st)"
    by simp
qed

definition listCompiledClassCandidates :: "filesys \<Rightarrow> string \<Rightarrow> string + string list" where
  \<comment> \<open>\<^verbatim>\<open>part_000\<close> lines 105-131; \<^verbatim>\<open>readdirSync\<close> throws when the workspace is not a
      directory\<close>
  "listCompiledClassCandidates f wd =
     (case fs_lookup f (path_segs wd) of
        Some (DirEnt n es) \<Rightarrow> Inr (walk wd [(wd, es)] [])
      | Some e \<Rightarrow> Inl (sys_error ''ENOTDIR'' ''scandir'' wd)
      | None \<Rightarrow> Inl (sys_error ''ENOENT'' ''scandir'' wd))"

type_synonym probe = "int option \<times> string \<times> string"

definition classHasMainWithJavap :: "(string \<Rightarrow> probe) \<Rightarrow> string \<Rightarrow> bool option" where
  \<comment> \<open>\<^verbatim>\<open>part_000\<close> lines 133-144; \<open>javap fqcn\<close> is what \<^verbatim>\<open>runCommand('javap', ...)\<close> resolves
      to: the exit code (\<open>-1\<close> when the tool could not be started), stdout and stderr.
      The result \<open>None\<close> is \<^verbatim>\<open>null\<close>.\<close>
  "classHasMainWithJavap javap fqcn =
     (case javap fqcn of (code, out, err) \<Rightarrow>
        if code \<noteq> Some 0 then
          (if code = Some (- 1) \<and> rx_test toolMissingRegex err then None else Some False)
        else Some (rx_test javapMainRegex (out @ [CHR 0x0A] @ err)))"

fun probe_candidates :: "(string \<Rightarrow> probe) \<Rightarrow> string list \<Rightarrow> string option \<times> string list" where
  \<comment> \<open>the first loop of \<^verbatim>\<open>findJavaMainClass\<close>, \<^verbatim>\<open>part_000\<close> lines 161-165: the class it
      returns, if any, and the candidates it has probed\<close>
  "probe_candidates javap [] = (None, [])"
| "probe_candidates javap (fqcn # rest) =
     (case classHasMainWithJavap javap fqcn of
        Some True \<Rightarrow> (Some fqcn, [fqcn])
      | None \<Rightarrow> (None, [fqcn])
      | Some False \<Rightarrow>
          (case probe_candidates javap rest of (r, probed) \<Rightarrow> (r, fqcn # probed)))"

definition orderedFiles :: "string \<Rightarrow> string list \<Rightarrow> string list" where
  \<comment> \<open>\<^verbatim>\<open>part_000\<close> lines 147-148\<close>
  "orderedFiles entryFile javaFiles =
     filter (\<lambda>n. n \<noteq> [] \<and> endsWith n ''.java'') (from_set (entryFile # javaFiles))"

definition sourceCandidates :: "filesys \<Rightarrow> string \<Rightarrow> string list \<Rightarrow> string list" where
  "sourceCandidates f wd fileNames =
     concat (map (\<lambda>n. fqcnCandidates (parseJavaPackageAndClasses f wd n)) fileNames)"

definition sourceLikelyMains :: "filesys \<Rightarrow> string \<Rightarrow> string list \<Rightarrow> string list" where
  "sourceLikelyMains f wd fileNames =
     concat (map (\<lambda>n. findLikelySourceMainClasses (pkg (parseJavaPackageAndClasses f wd n))
                         (content (parseJavaPackageAndClasses f wd n))) fileNames)"

definition orderedCandidates :: "filesys \<Rightarrow> string \<Rightarrow> string \<Rightarrow> string list \<Rightarrow> string + string list" where
  \<comment> \<open>\<^verbatim>\<open>part_000\<close> lines 150-159\<close>
  "orderedCandidates f wd entryFile javaFiles =
     (case listCompiledClassCandidates f wd of
        Inl e \<Rightarrow> Inl e
      | Inr compiled \<Rightarrow>
          Inr (from_set (sourceCandidates f wd (orderedFiles entryFile javaFiles) @ compiled)))"

definition findJavaMainClass_two_phase ::
  "filesys \<Rightarrow> (string \<Rightarrow> probe) \<Rightarrow> string \<Rightarrow> string \<Rightarrow> string list
     \<Rightarrow> string + (string option \<times> string list)" where
  \<comment> \<open>\<^verbatim>\<open>findJavaMainClass\<close> of \<^verbatim>\<open>part_000\<close> lines 146-172: the class (or \<^verbatim>\<open>null\<close>) with the
      candidates probed, or the message of the error thrown\<close>
  "findJavaMainClass_two_phase f javap wd entryFile javaFiles =
     (case orderedCandidates f wd entryFile javaFiles of
        Inl e \<Rightarrow> Inl e
      | Inr cands \<Rightarrow>
          (case probe_candidates javap cands of
             (Some fqcn, probed) \<Rightarrow> Inr (Some fqcn, probed)
           | (None, probed) \<Rightarrow>
               Inr (find (\<lambda>fqcn. fqcn \<in> set cands)
                      (sourceLikelyMains f wd (orderedFiles entryFile javaFiles)), probed)))"

definition main_not_found :: string where
  "main_not_found =
     ''Main method not found in submitted Java files. Define: public static void main(String[] args)''"

definition run_java_resolved ::
  "env \<Rightarrow> (string \<Rightarrow> probe) \<Rightarrow> spawn_outcome \<Rightarrow> string \<Rightarrow> string list \<Rightarrow> state \<Rightarrow> state" where
  \<comment> \<open>the \<^verbatim>\<open>java\<close> branch of that variant after a successful compilation, \<^verbatim>\<open>part_000\<close>
      lines 249-262, with its \<^verbatim>\<open>catch\<close> block (lines 320-323); this variant does not
      clear \<^verbatim>\<open>proc\<close> and \<^verbatim>\<open>workdir\<close> after \<^verbatim>\<open>cleanupProcess\<close>. The probes are awaited
      one after the other; no other event of the session is taken in between here. With
      \<^verbatim>\<open>workdir\<close> \<^verbatim>\<open>null\<close> it is \<^verbatim>\<open>readdirSync\<close> that throws the TypeError.\<close>
  "run_java_resolved E javap sp entryFile javaFiles s =
     (case workdir s of
        None \<Rightarrow> cleanupProcess E (proc s) (workdir s) (send (Error type_error_path) s)
      | Some w \<Rightarrow>
          (case findJavaMainClass_two_phase (fsys s) javap w entryFile javaFiles of
             Inl m \<Rightarrow> cleanupProcess E (proc s) (workdir s) (send (Error m) s)
           | Inr (mainClass, probed) \<Rightarrow>
               if \<not> truthy mainClass then
                 cleanupProcess E (proc s) (workdir s) (send (Error main_not_found) s)
               else
                 (case spawn_proc sp ''java'' [''-cp'', w, or_empty mainClass] (Some w) s of
                    (s', None) \<Rightarrow> s'
                  | (s', Some m) \<Rightarrow>
                      cleanupProcess E (proc s') (workdir s') (send (Error m) s'))))"

fun class_files_spec :: "string \<Rightarrow> string \<Rightarrow> dirent list \<Rightarrow> string list" where
  "class_files_spec wd dir [] = []"
| "class_files_spec wd dir (DirEnt n ch # es) =
     class_files_spec wd (path_join dir n) ch @ class_files_spec wd dir es"
| "class_files_spec wd dir (FileEnt n c # es) =
     (if endsWith n ''.class'' \<and> \<not> includes_chr n CHR ''$''
      then class_fqcn wd (path_join dir n) # class_files_spec wd dir es
      else class_files_spec wd dir es)"
| "class_files_spec wd dir (OtherEnt n # es) = class_files_spec wd dir es"

definition is_java :: "string \<Rightarrow> bool" where
  "is_java n = (n \<noteq> [] \<and> endsWith n ''.java'')"

subsection \<open>Notions used in the proofs about the scan of the sources\<close>





fun grp_free :: "rx \<Rightarrow> bool" where
  "grp_free (Grp n a) = False"
| "grp_free (Seq a b) = (grp_free a \<and> grp_free b)"
| "grp_free (Alt a b) = (grp_free a \<and> grp_free b)"
| "grp_free (Star a) = grp_free a"
| "grp_free r = True"


subsection \<open>Example data\<close>

definition linux :: env where
  "linux = \<lparr>win32 = False, tmpdir = ''/tmp'', rm_fails = (\<lambda>p. False)\<rparr>"

definition disk :: filesys where
  "disk = [DirEnt ''tmp'' []]"

definition src :: "string \<Rightarrow> string \<Rightarrow> source_file" where
  "src n c = \<lparr>file_name = Some n, file_content = Some c\<rparr>"

definition python_session :: state where
  \<comment> \<open>a session whose Python program is running\<close>
  "python_session = step linux (init disk)
     (Message (Run (Some ''python'') [src ''main.py'' ''print(input())''] None) ''abc123'' SpawnOk)"

definition waiting_java :: string where
  "waiting_java =
     ''class A { public static void main(String[] a) throws Exception { System.in.read(); } }''"

definition two_java_runs :: "event list" where
  \<comment> \<open>a second \<^verbatim>\<open>run\<close> arrives while the first one waits for its compiler; both compilers
      succeed\<close>
  "two_java_runs =
     [Message (Run (Some ''java'') [src ''A.java'' waiting_java] None) ''aaaaaa'' SpawnOk,
      Message (Run (Some ''java'') [src ''A.java'' waiting_java] None) ''bbbbbb'' SpawnOk,
      CompileClose 0 (Some 0) [] SpawnOk,
      CompileClose 1 (Some 0) [] SpawnOk]"

definition escaping_run :: event where
  "escaping_run =
     Message (Run (Some ''python'') [src ''../escape.txt'' ''x''] None) ''abc123'' SpawnOk"

definition java_compiling :: state where
  \<comment> \<open>a session whose \<^verbatim>\<open>run\<close> handler waits for \<^verbatim>\<open>javac\<close>\<close>
  "java_compiling = step linux (init disk)
     (Message (Run (Some ''java'') [src ''A.java'' ''class A {''] None) ''abc123'' SpawnOk)"

definition silent_compile_failure :: "event list" where
  \<comment> \<open>the compiler exits with status 1 and has written nothing to stderr\<close>
  "silent_compile_failure =
     [Message (Run (Some ''java'') [src ''A.java'' ''class A {''] None) ''abc123'' SpawnOk,
      CompileClose 0 (Some 1) [] SpawnOk]"

definition esm_run :: event where
  "esm_run =
     Message (Run (Some ''node'') [src ''m.js'' ''export default 1''] None) ''abc123'' SpawnOk"

definition esm_blocked_run :: event where
  \<comment> \<open>the submitted files make \<^verbatim>\<open>package.json\<close> a directory of the workspace\<close>
  "esm_blocked_run =
     Message (Run (Some ''node'')
                [src ''package.json/x.txt'' ''x'', src ''m.js'' ''export default 1'']
                (Some ''m.js'')) ''abc123'' SpawnOk"

definition java_without_main :: "event list" where
  "java_without_main =
     [Message (Run (Some ''java'') [src ''A.java'' ''class A { }''] None) ''abc123'' SpawnOk,
      CompileClose 0 (Some 0) [] SpawnOk]"

definition python_exited :: state where
  "python_exited = step linux python_session (ProcExit 0)"

definition unsupported_run :: event where
  "unsupported_run =
     Message (Run (Some ''cobol'') [src ''a.cob'' ''x''] None) ''abc123'' SpawnOk"

definition esm_prepared :: state where
  "esm_prepared =
     (case prepare linux ''abc123'' [src ''m.js'' ''export default 1''] None (cleanup linux (init disk)) of
        Ready s2 w entryFile \<Rightarrow> s2
      | Thrown s2 e \<Rightarrow> s2
      | NoEntry s2 entryFile \<Rightarrow> s2)"


definition main_java :: string where
  "main_java = ''class Main { public static void main(String[] args) { } }''"

definition java_disk :: filesys where
  "java_disk =
     [DirEnt ''tmp''
        [DirEnt ''w''
           [FileEnt ''Main.java'' main_java,
            FileEnt ''Util.java'' ''package lib; class Util { } enum Kind { A }'',
            FileEnt ''Main.class'' [],
            FileEnt ''Main$1.class'' [],
            DirEnt ''lib'' [FileEnt ''Util.class'' [], FileEnt ''Kind.class'' [], FileEnt ''Gen.class'' []]]]]"


definition null_frame_after_run :: "event list" where
  \<comment> \<open>a Python program is running; the client sends the text \<^verbatim>\<open>null\<close>, then disconnects\<close>
  "null_frame_after_run =
     [Message (Run (Some ''python'') [src ''main.py'' ''print(input())''] None) ''abc123'' SpawnOk,
      Message JsonNull [] SpawnOk,
      ConnClose]"

definition java_then_python :: "event list" where
  \<comment> \<open>a \<^verbatim>\<open>run\<close> of a Python program arrives while a \<^verbatim>\<open>run\<close> of a Java program waits for
      its compiler, which then succeeds\<close>
  "java_then_python =
     [Message (Run (Some ''java'') [src ''A.java'' waiting_java] None) ''aaaaaa'' SpawnOk,
      Message (Run (Some ''python'') [src ''main.py'' ''print(input())''] None) ''bbbbbb'' SpawnOk,
      CompileClose 0 (Some 0) [] SpawnOk]"

definition orphaned_session :: state where
  "orphaned_session =
     run_events linux (init disk) (two_java_runs @ [Message Terminate [] SpawnOk])"

definition refusing :: env where
  \<comment> \<open>an environment in which every removal fails\<close>
  "refusing = \<lparr>win32 = False, tmpdir = ''/tmp'', rm_fails = (\<lambda>p. True)\<rparr>"

definition failed_write :: "event list" where
  \<comment> \<open>the write of an \<^verbatim>\<open>input\<close> fails: the program has closed its stdin\<close>
  "failed_write =
     [Message (Run (Some ''python'') [src ''main.py'' ''print(input())''] None) ''abc123'' SpawnOk,
      Message (Input (Some ''42'')) [] SpawnOk,
      StdinError 0,
      ConnClose]"

definition compiled_without_main :: state where
  \<comment> \<open>\<^verbatim>\<open>A.java\<close> of \<open>java_without_main\<close> has been compiled in the workspace\<close>
  "compiled_without_main =
     \<lparr>proc = None, workdir = Some ''/tmp/code-sync-abc123'',
      fsys = [DirEnt ''tmp'' [DirEnt ''code-sync-abc123''
                [FileEnt ''A.java'' ''class A { }'', FileEnt ''A.class'' []]]],
      procs = [], frames = [], effects = [], crashed = False\<rparr>"

definition javap_without_main :: "string \<Rightarrow> probe" where
  "javap_without_main fqcn = (Some 0, ''class '' @ fqcn @ '' { '' @ fqcn @ ''(); }'', [])"

subsection \<open>Invariants of a session\<close>

definition wd_ok :: "state \<Rightarrow> bool" where
  \<comment> \<open>\<^verbatim>\<open>workdir\<close> is never the root directory\<close>
  "wd_ok s = (case workdir s of None \<Rightarrow> True | Some d \<Rightarrow> path_segs d \<noteq> [])"

definition killed_dead :: "state \<Rightarrow> bool" where
  \<comment> \<open>a child whose \<^verbatim>\<open>killed\<close> flag is set is not running\<close>
  "killed_dead s = list_all (\<lambda>p. \<not> (p_killed p \<and> p_running p)) (procs s)"

definition session_inv :: "state \<Rightarrow> bool" where
  "session_inv s = (wd_ok s \<and> killed_dead s)"

subsection \<open>How a step ends\<close>

definition run_over :: "env \<Rightarrow> string \<Rightarrow> state \<Rightarrow> bool" where
  "run_over E w s = (proc s = None \<and> workdir s = None \<and> (rm_fails E w \<or> \<not> existsSync (fsys s) w))"

definition dispatched :: "env \<Rightarrow> string \<Rightarrow> state \<Rightarrow> state \<times> string option \<Rightarrow> bool" where
  "dispatched E w s r =
     (case r of
        (s', None) \<Rightarrow>
           (proc s' \<noteq> None \<and> workdir s' = Some w \<and> frames s' = frames s)
           \<or> (proc s' = None \<and> workdir s' = Some w \<and> length (frames s') = Suc (length (frames s)))
           \<or> (run_over E w s' \<and> frames s' = frames s)
      | (s', Some e) \<Rightarrow> proc s' = None \<and> workdir s' = Some w \<and> frames s' = frames s)"

definition tmp_name :: "env \<Rightarrow> string \<Rightarrow> string" where
  "tmp_name E sfx = path_join (tmpdir E) ''code-sync-'' @ sfx"

definition prepared_ok :: "env \<Rightarrow> string \<Rightarrow> state \<Rightarrow> prepared \<Rightarrow> bool" where
  "prepared_ok E sfx s p =
     (case p of
        Thrown s1 e \<Rightarrow>
          proc s1 = proc s \<and> frames s1 = frames s
          \<and> ((workdir s1 = workdir s \<and> fsys s1 = fsys s)
              \<or> (workdir s1 = Some (tmp_name E sfx) \<and> path_segs (tmp_name E sfx) \<noteq> []))
      | NoEntry s1 ef \<Rightarrow>
          proc s1 = proc s \<and> frames s1 = frames s
          \<and> workdir s1 = Some (tmp_name E sfx) \<and> path_segs (tmp_name E sfx) \<noteq> []
      | Ready s1 w ef \<Rightarrow>
          w = tmp_name E sfx \<and> proc s1 = proc s \<and> frames s1 = frames s
          \<and> workdir s1 = Some (tmp_name E sfx) \<and> path_segs (tmp_name E sfx) \<noteq> [])"

definition run_outcome :: "env \<Rightarrow> string \<Rightarrow> state \<Rightarrow> state \<Rightarrow> bool" where
  "run_outcome E sfx s s' =
     ((proc s' \<noteq> None \<and> workdir s' = Some (tmp_name E sfx))
      \<or> (proc s' = None \<and> workdir s' = Some (tmp_name E sfx)
          \<and> length (frames s') = Suc (length (frames s)))
      \<or> (proc s' = None \<and> workdir s' = None
          \<and> (existsSync (fsys (cleanup E s)) (tmp_name E sfx) \<or> rm_fails E (tmp_name E sfx)
              \<or> \<not> existsSync (fsys s') (tmp_name E sfx))))"

fun is_run :: "event \<Rightarrow> bool" where
  "is_run (Message (Run l fls m) sfx sp) = True"
| "is_run ev = False"

fun ends_run :: "state \<Rightarrow> event \<Rightarrow> bool" where
  "ends_run s (Message Terminate sfx sp) = True"
| "ends_run s ConnClose = True"
| "ends_run s (ProcClose i code) =
     (i < length (procs s) \<and> \<not> p_running (procs s ! i) \<and> \<not> p_closed (procs s ! i))"
| "ends_run s (ProcError i m) = (i < length (procs s))"
| "ends_run s (CompileClose k code err sp) =
     (k < length (frames s) \<and> \<not> fr_done (frames s ! k) \<and> code \<noteq> Some 0)"
| "ends_run s ev = False"

definition kept_or_cleaned :: "env \<Rightarrow> string \<Rightarrow> state \<Rightarrow> bool" where
  "kept_or_cleaned E d s = (workdir s = Some d \<or> run_over E d s)"

section \<open>Properties\<close>

subsection \<open>The file system and the helper functions\<close>

lemma fs_find_filter_neq: "fs_find (filter (\<lambda>e. ent_name e \<noteq> n) es) n = None"
  by (induction es) (auto simp: fs_find_def)

lemma fs_find_map_same_name:
  assumes "\<And>e. ent_name (g e) = ent_name e"
  shows "fs_find (map g es) n = map_option g (fs_find es n)"
  using assms by (induction es) (auto simp: fs_find_def)

lemma fs_lookup_remove: "p \<noteq> [] \<Longrightarrow> fs_lookup (fs_remove es p) p = None"
proof (induction es p rule: fs_remove.induct)
  case (1 es)
  then show ?case by simp
next
  case (2 es n)
  then show ?case by (simp add: fs_find_filter_neq)
next
  case (3 es n m ms)
  let ?g = "\<lambda>e. case e of DirEnt k ch \<Rightarrow> if k = n then DirEnt k (fs_remove ch (m # ms)) else e | _ \<Rightarrow> e"
  have name: "\<And>e. ent_name (?g e) = ent_name e"
    by (auto split: dirent.splits)
  have find: "fs_find (map ?g es) n = map_option ?g (fs_find es n)"
    by (rule fs_find_map_same_name) (rule name)
  show ?case
  proof (cases "fs_find es n")
    case None
    with find show ?thesis by simp
  next
    case (Some e)
    then have en: "ent_name e = n" 
      by (auto simp: fs_find_def dest: find_Some_iff[THEN iffD1])
    have mem: "e \<in> set es" using Some
      by (auto simp: fs_find_def find_Some_iff)
    show ?thesis
    proof (cases e)
      case (DirEnt k ch)
      with en have "k = n" by simp
      with 3(1)[OF mem] DirEnt have "fs_lookup (fs_remove ch (m # ms)) (m # ms) = None"
        by simp
      with find Some DirEnt \<open>k = n\<close> show ?thesis by simp
    next
      case (FileEnt k c)
      with find Some show ?thesis by simp
    next
      case (OtherEnt k)
      with find Some show ?thesis by simp
    qed
  qed
qed

lemma sent_append [simp]: "sent (xs @ ys) = sent xs @ sent ys"
  by (induction xs rule: sent.induct) auto

lemma spawned_append [simp]: "spawned (xs @ ys) = spawned xs @ spawned ys"
  by (induction xs rule: spawned.induct) auto

lemma crash_fields [simp]:
  "proc (crash s) = proc s" "workdir (crash s) = workdir s" "fsys (crash s) = fsys s"
  "procs (crash s) = procs s" "frames (crash s) = frames s" "effects (crash s) = effects s"
  "crashed (crash s)"
  by (simp_all add: crash_def)

lemma crashed_init [simp]: "\<not> crashed (init f)"
  by (simp add: init_def)

lemma emit_fields [simp]:
  "proc (emit e s) = proc s" "workdir (emit e s) = workdir s" "fsys (emit e s) = fsys s"
  "procs (emit e s) = procs s" "frames (emit e s) = frames s"
  "effects (emit e s) = effects s @ [e]"
  by (simp_all add: emit_def)

lemma send_fields [simp]:
  "proc (send ev s) = proc s" "workdir (send ev s) = workdir s" "fsys (send ev s) = fsys s"
  "procs (send ev s) = procs s" "frames (send ev s) = frames s"
  "effects (send ev s) = effects s @ [Send ev]"
  by (simp_all add: send_def)

lemma reset_fields [simp]:
  "proc (reset s) = None" "workdir (reset s) = None" "fsys (reset s) = fsys s"
  "procs (reset s) = procs s" "frames (reset s) = frames s" "effects (reset s) = effects s"
  by (simp_all add: reset_def)

lemma kill_fields [simp]:
  "proc (kill i s) = proc s" "workdir (kill i s) = workdir s" "fsys (kill i s) = fsys s"
  "frames (kill i s) = frames s" "effects (kill i s) = effects s @ [Kill i]"
  "length (procs (kill i s)) = length (procs s)"
  by (simp_all add: kill_def)

lemma kill_not_running: "\<not> running (kill i s) i"
  by (simp add: kill_def running_def)

lemma cleanupProcess_fields [simp]:
  "proc (cleanupProcess E p w s) = proc s"
  "workdir (cleanupProcess E p w s) = workdir s"
  "frames (cleanupProcess E p w s) = frames s"
  "length (procs (cleanupProcess E p w s)) = length (procs s)"
  "sent (effects (cleanupProcess E p w s)) = sent (effects s)"
  "spawned (effects (cleanupProcess E p w s)) = spawned (effects s)"
  by (simp_all add: cleanupProcess_def Let_def split: option.splits sum.splits)

lemma cleanup_fields [simp]:
  "proc (cleanup E s) = None" "workdir (cleanup E s) = None"
  "frames (cleanup E s) = frames s"
  "length (procs (cleanup E s)) = length (procs s)"
  "sent (effects (cleanup E s)) = sent (effects s)"
  "spawned (effects (cleanup E s)) = spawned (effects s)"
  by (simp_all add: cleanup_def)

lemma cleanup_idle: "proc s = None \<Longrightarrow> workdir s = None \<Longrightarrow> cleanup E s = s"
  by (simp add: cleanup_def cleanupProcess_def reset_def)

lemma killed_deadD: "killed_dead s \<Longrightarrow> killed s i \<Longrightarrow> \<not> running s i"
  by (auto simp: killed_dead_def killed_def running_def list_all_length)

lemma cleanupProcess_stops:
  "killed_dead s \<Longrightarrow> \<not> running (cleanupProcess E (Some i) w s) i"
  by (auto simp: cleanupProcess_def Let_def running_def killed_def kill_def emit_def killed_dead_def
        list_all_length split: option.splits sum.splits)

lemma cleanupProcess_removes:
  "path_segs d \<noteq> [] \<Longrightarrow> \<not> rm_fails E d \<Longrightarrow> \<not> existsSync (fsys (cleanupProcess E p (Some d) s)) d"
  by (simp add: cleanupProcess_def Let_def rmSync_def existsSync_def fs_lookup_remove)


lemma fs_remove_idem: "fs_remove (fs_remove es p) p = fs_remove es p"
proof (induction es p rule: fs_remove.induct)
  case (1 es)
  then show ?case by simp
next
  case (2 es n)
  then show ?case by simp
next
  case (3 es n m ms)
  then show ?case
    by (auto simp: comp_def split: dirent.splits)
qed

lemma cleanupProcess_idem:
  "(cleanupProcess E p w (cleanupProcess E p w s))\<lparr>effects := e\<rparr>
     = (cleanupProcess E p w s)\<lparr>effects := e\<rparr>"
  by (cases p; cases w)
     (auto simp: cleanupProcess_def Let_def kill_def killed_def running_def emit_def rmSync_def
        fs_remove_idem)

lemma wd_ok_simps [simp]:
  "wd_ok (emit e s) = wd_ok s" "wd_ok (send ev s) = wd_ok s" "wd_ok (kill i s) = wd_ok s"
  "wd_ok (cleanupProcess E p w s) = wd_ok s" "wd_ok (reset s)" "wd_ok (cleanup E s)"
  by (simp_all add: wd_ok_def)

lemma killed_dead_kill: "killed_dead s \<Longrightarrow> killed_dead (kill i s)"
  by (auto simp: killed_dead_def kill_def emit_def running_def list_all_length nth_list_update)

lemma killed_dead_simps [simp]:
  "killed_dead (emit e s) = killed_dead s" "killed_dead (send ev s) = killed_dead s"
  "killed_dead (reset s) = killed_dead s"
  by (simp_all add: killed_dead_def)

lemma procs_cleanupProcess:
  "procs (cleanupProcess E p w s)
     = (case p of None \<Rightarrow> procs s | Some i \<Rightarrow> if killed s i then procs s else procs (kill i s))"
  by (simp add: cleanupProcess_def Let_def split: option.splits sum.splits)

lemma killed_dead_cleanupProcess: "killed_dead s \<Longrightarrow> killed_dead (cleanupProcess E p w s)"
  using killed_dead_kill[of s] 
  by (auto simp: killed_dead_def procs_cleanupProcess split: option.splits)

lemma killed_dead_cleanup: "killed_dead s \<Longrightarrow> killed_dead (cleanup E s)"
  by (simp add: cleanup_def killed_dead_cleanupProcess)

lemma spawn_proc_fields [simp]:
  "workdir (fst (spawn_proc sp cmd args cwd s)) = workdir s"
  "fsys (fst (spawn_proc sp cmd args cwd s)) = fsys s"
  "frames (fst (spawn_proc sp cmd args cwd s)) = frames s"
  "sent (effects (fst (spawn_proc sp cmd args cwd s))) = sent (effects s)"
  by (simp_all add: spawn_proc_def split: spawn_outcome.splits)

lemma suspend_fields [simp]:
  "proc (suspend l fls ef s) = proc s" "workdir (suspend l fls ef s) = workdir s"
  "fsys (suspend l fls ef s) = fsys s" "procs (suspend l fls ef s) = procs s"
  "effects (suspend l fls ef s) = effects s"
  "length (frames (suspend l fls ef s)) = Suc (length (frames s))"
  by (simp_all add: suspend_def)

lemma materialize_fields [simp]:
  "proc (fst (materialize w fls s)) = proc s"
  "workdir (fst (materialize w fls s)) = workdir s"
  "procs (fst (materialize w fls s)) = procs s"
  "frames (fst (materialize w fls s)) = frames s"
  "sent (effects (fst (materialize w fls s))) = sent (effects s)"
  "spawned (effects (fst (materialize w fls s))) = spawned (effects s)"
  by (induction w fls s rule: materialize.induct;
      simp add: Let_def split: sum.splits)+

lemma wd_ok_spawn_proc [simp]: "wd_ok (fst (spawn_proc sp cmd args cwd s)) = wd_ok s"
  by (simp add: wd_ok_def)

lemma wd_ok_suspend [simp]: "wd_ok (suspend l fls ef s) = wd_ok s"
  by (simp add: wd_ok_def)

lemma killed_dead_spawn_proc: "killed_dead s \<Longrightarrow> killed_dead (fst (spawn_proc sp cmd args cwd s))"
  by (simp add: spawn_proc_def killed_dead_def split: spawn_outcome.splits)

lemma killed_dead_procs: "procs s' = procs s \<Longrightarrow> killed_dead s' = killed_dead s"
  by (simp add: killed_dead_def)

lemma mkdtempSync_segs: "mkdtempSync f pre sfx = Inr (w, f') \<Longrightarrow> path_segs w \<noteq> []"
  by (auto simp: mkdtempSync_def Let_def split: option.splits dirent.splits if_splits sum.splits)

lemma inv_cleanup: "session_inv s \<Longrightarrow> session_inv (cleanup E s)"
  by (simp add: session_inv_def killed_dead_cleanup)

lemma inv_send [simp]: "session_inv (send ev s) = session_inv s"
  by (simp add: session_inv_def)

lemma inv_emit [simp]: "session_inv (emit e s) = session_inv s"
  by (simp add: session_inv_def)

lemma inv_spawn_proc: "session_inv s \<Longrightarrow> session_inv (fst (spawn_proc sp cmd args cwd s))"
  by (simp add: session_inv_def killed_dead_spawn_proc)

lemma inv_suspend: "session_inv s \<Longrightarrow> session_inv (suspend l fls ef s)"
  by (simp add: session_inv_def killed_dead_procs[of "suspend l fls ef s" s])

lemma inv_fsys [simp]: "session_inv (s\<lparr>fsys := f\<rparr>) = session_inv s"
  by (simp add: session_inv_def wd_ok_def killed_dead_def)

lemma inv_materialize: "session_inv s \<Longrightarrow> session_inv (fst (materialize w fls s))"
  by (simp add: session_inv_def wd_ok_def killed_dead_procs[of "fst (materialize w fls s)" s])

lemma inv_run_dispatch: "session_inv s \<Longrightarrow> session_inv (fst (run_dispatch E sp l fls ef ep w s))"
  by (simp add: run_dispatch_def Let_def inv_spawn_proc inv_suspend inv_cleanup
        split: sum.splits)

lemma inv_prepare:
  assumes "session_inv s"
  shows "case prepare E sfx fls m s of
           Thrown s1 e \<Rightarrow> session_inv s1
         | NoEntry s1 ef \<Rightarrow> session_inv s1
         | Ready s1 w ef \<Rightarrow> session_inv s1"
proof (cases "mkdtempSync (fsys s) (path_join (tmpdir E) ''code-sync-'') sfx")
  case (Inl e)
  with assms show ?thesis by (simp add: prepare_def)
next
  case (Inr r)
  obtain w f where r: "r = (w, f)" by (cases r)
  let ?s1 = "emit (Mkdtemp w) (s\<lparr>workdir := Some w, fsys := f\<rparr>)"
  have "path_segs w \<noteq> []" using Inr r by (auto dest: mkdtempSync_segs)
  with assms have "session_inv ?s1" by (simp add: session_inv_def wd_ok_def killed_dead_def)
  then have m: "session_inv (fst (materialize w fls ?s1))" by (rule inv_materialize)
  obtain s2 r2 where s2: "materialize w fls ?s1 = (s2, r2)" by (cases "materialize w fls ?s1")
  with m have "session_inv s2" by simp
  then show ?thesis using Inr r s2
    by (simp add: prepare_def split: option.splits)
qed

lemma inv_run_try: "session_inv s \<Longrightarrow> session_inv (fst (run_try E sfx sp l fls m s))"
  using inv_prepare[of s E sfx fls m]
  by (auto simp: run_try_def inv_run_dispatch inv_cleanup split: prepared.splits)

lemma inv_catch_run: "session_inv (fst r) \<Longrightarrow> session_inv (catch_run E r)"
  by (cases r) (auto simp: catch_run_def inv_cleanup split: option.splits)

lemma inv_handle_run: "session_inv s \<Longrightarrow> session_inv (handle_run E sfx sp l fls m s)"
  by (simp add: handle_run_def inv_catch_run inv_run_try inv_cleanup)

lemma inv_frames [simp]: "session_inv (s\<lparr>frames := f\<rparr>) = session_inv s"
  by (simp add: session_inv_def wd_ok_def killed_dead_def)

lemma inv_after_compile: "session_inv s \<Longrightarrow> session_inv (fst (after_compile E fr code err sp s))"
  by (simp add: after_compile_def inv_cleanup inv_spawn_proc split: sum.splits option.splits)

lemma inv_resume: "session_inv s \<Longrightarrow> session_inv (resume E k code err sp s)"
  by (simp add: resume_def inv_catch_run inv_after_compile)

lemma list_all_list_update:
  "list_all P xs \<Longrightarrow> i < length xs \<longrightarrow> P y \<Longrightarrow> list_all P (xs[i := y])"
  by (cases "i < length xs") (auto simp: list_all_length nth_list_update)

lemma inv_crash: "session_inv s \<Longrightarrow> session_inv (crash s)"
  by (simp add: session_inv_def wd_ok_def killed_dead_def)

lemma inv_step: "session_inv s \<Longrightarrow> session_inv (step E s ev)"
proof (cases ev)
  case (Message m sfx sp)
  assume "session_inv s"
  then show ?thesis using Message
    by (cases m) (simp_all add: inv_handle_run handle_input_def handle_terminate_def inv_cleanup
          inv_crash split: option.splits)
next
  case (ProcExit i)
  assume "session_inv s"
  then show ?thesis using ProcExit
    by (auto simp: on_proc_exit_def session_inv_def wd_ok_def killed_dead_def running_def
          intro!: list_all_list_update)
next
  case (ProcClose i code)
  assume a: "session_inv s"
  let ?s1 = "s\<lparr>procs := (procs s)[i := (procs s ! i)\<lparr>p_closed := True\<rparr>]\<rparr>"
  have "killed_dead ?s1"
    unfolding killed_dead_def using a
    by (simp add: session_inv_def killed_dead_def) (rule list_all_list_update, auto simp: list_all_length)
  then have "session_inv ?s1" using a
    by (simp add: session_inv_def wd_ok_def)
  then show ?thesis using ProcClose a
    by (simp add: on_proc_close_def inv_cleanup)
qed (simp_all add: inv_resume on_proc_error_def inv_cleanup handle_close_def on_stdin_error_def
       inv_crash)

lemma reachable_first: "reachable E (step E (init f) ev)"
  by (rule reachable.next_event[OF reachable.start]) simp

lemma reachable_inv: "reachable E s \<Longrightarrow> session_inv s"
proof (induction rule: reachable.induct)
  case (start f)
  show ?case by (simp add: session_inv_def wd_ok_def killed_dead_def init_def)
next
  case (next_event s ev)
  then show ?case by (simp add: inv_step)
qed

subsection \<open>Every handler keeps the workspace or removes it\<close>

lemma gone_after_cleanup:
  "wd_ok s \<Longrightarrow> workdir s = Some d \<Longrightarrow> \<not> rm_fails E d \<Longrightarrow> \<not> existsSync (fsys (cleanup E s)) d"
  by (simp add: cleanup_def wd_ok_def cleanupProcess_removes)

lemma cleanup_fsys_idle: "workdir s = None \<Longrightarrow> fsys (cleanup E s) = fsys s"
  by (simp add: cleanup_def cleanupProcess_def Let_def split: option.splits)

lemma spawn_proc_cases:
  "(\<exists>m. sp = SpawnThrows m \<and> spawn_proc sp cmd args cwd s = (s, Some m))
   \<or> (snd (spawn_proc sp cmd args cwd s) = None
       \<and> proc (fst (spawn_proc sp cmd args cwd s)) = Some (length (procs s))
       \<and> length (procs (fst (spawn_proc sp cmd args cwd s))) = Suc (length (procs s)))"
  by (cases sp) (simp_all add: spawn_proc_def)

lemma run_over_cleanup:
  "wd_ok s \<Longrightarrow> workdir s = Some w \<Longrightarrow> run_over E w (cleanup E s)"
  using gone_after_cleanup[of s w E] by (auto simp: run_over_def)

lemma dispatched_spawn:
  "proc t = None \<Longrightarrow> workdir t = Some w \<Longrightarrow> frames t = frames s
     \<Longrightarrow> dispatched E w s (spawn_proc sp cmd args (Some w) t)"
  by (cases sp) (simp_all add: dispatched_def spawn_proc_def)

lemma dispatched_suspend:
  "proc t = None \<Longrightarrow> workdir t = Some w \<Longrightarrow> frames t = frames s
     \<Longrightarrow> dispatched E w s (suspend c fls ef t, None)"
  by (simp add: dispatched_def suspend_def)

lemma dispatched_cleanup:
  "workdir t = Some w \<Longrightarrow> path_segs w \<noteq> [] \<Longrightarrow> frames t = frames s
     \<Longrightarrow> dispatched E w s (cleanup E t, None)"
  using run_over_cleanup[of t w E] by (simp add: dispatched_def wd_ok_def)

lemma run_dispatch_outcome:
  assumes "proc s = None" "workdir s = Some w" "path_segs w \<noteq> []"
  shows "dispatched E w s (run_dispatch E sp l fls ef ep w s)"
  using assms
  by (simp add: run_dispatch_def Let_def dispatched_spawn dispatched_suspend dispatched_cleanup
        split: sum.splits)

lemma mkdtempSync_name: "mkdtempSync f pre sfx = Inr (w, f') \<Longrightarrow> w = pre @ sfx"
  by (auto simp: mkdtempSync_def Let_def split: option.splits dirent.splits if_splits sum.splits)

lemma prepare_facts: "prepared_ok E sfx s (prepare E sfx fls m s)"
proof (cases "mkdtempSync (fsys s) (path_join (tmpdir E) ''code-sync-'') sfx")
  case (Inl e)
  then show ?thesis by (simp add: prepare_def prepared_ok_def)
next
  case (Inr r)
  obtain w f where r: "r = (w, f)" by (cases r)
  let ?s1 = "emit (Mkdtemp w) (s\<lparr>workdir := Some w, fsys := f\<rparr>)"
  have w: "w = tmp_name E sfx" "path_segs w \<noteq> []"
    using Inr r by (auto simp: tmp_name_def dest: mkdtempSync_segs mkdtempSync_name)
  obtain s2 r2 where s2: "materialize w fls ?s1 = (s2, r2)" by (cases "materialize w fls ?s1")
  have "proc (fst (materialize w fls ?s1)) = proc s" "frames (fst (materialize w fls ?s1)) = frames s"
    "workdir (fst (materialize w fls ?s1)) = Some w"
    by simp_all
  with s2 have "proc s2 = proc s" "frames s2 = frames s" "workdir s2 = Some w" by simp_all
  then show ?thesis using Inr r s2 w
    by (simp add: prepare_def prepared_ok_def split: option.splits)
qed

lemma handle_run_outcome: "run_outcome E sfx s (handle_run E sfx sp l fls m s)"
proof -
  let ?c = "cleanup E s"
  let ?w = "tmp_name E sfx"
  have c: "proc ?c = None" "workdir ?c = None" "frames ?c = frames s" by simp_all
  have p: "prepared_ok E sfx ?c (prepare E sfx fls m ?c)" by (rule prepare_facts)
  show ?thesis
  proof (cases "prepare E sfx fls m ?c")
    case (Thrown s1 e)
    with p c have f: "proc s1 = None" 
      and d: "(workdir s1 = None \<and> fsys s1 = fsys ?c) \<or> (workdir s1 = Some ?w \<and> path_segs ?w \<noteq> [])"
      by (simp_all add: prepared_ok_def)
    let ?t = "send (Error (''Runtime error: '' @ e)) s1"
    have h: "handle_run E sfx sp l fls m s = cleanup E ?t"
      using Thrown by (simp add: handle_run_def run_try_def catch_run_def)
    from d show ?thesis
    proof
      assume a: "workdir s1 = None \<and> fsys s1 = fsys ?c"
      then have "fsys (cleanup E ?t) = fsys ?c" by (simp add: cleanup_fsys_idle)
      then show ?thesis unfolding h run_outcome_def by auto
    next
      assume a: "workdir s1 = Some ?w \<and> path_segs ?w \<noteq> []"
      then have "run_over E ?w (cleanup E ?t)"
        by (intro run_over_cleanup) (simp_all add: wd_ok_def)
      then show ?thesis unfolding h run_outcome_def run_over_def by auto
    qed
  next
    case (NoEntry s1 ef)
    with p c have f: "workdir s1 = Some ?w" "path_segs ?w \<noteq> []"
      by (simp_all add: prepared_ok_def)
    let ?t = "send (Error (''Entry file not found: '' @ ef)) s1"
    have h: "handle_run E sfx sp l fls m s = cleanup E ?t"
      using NoEntry by (simp add: handle_run_def run_try_def catch_run_def)
    have "run_over E ?w (cleanup E ?t)"
      by (intro run_over_cleanup) (use f in \<open>simp_all add: wd_ok_def\<close>)
    then show ?thesis unfolding h run_outcome_def run_over_def by auto
  next
    case (Ready s1 w ef)
    with p c have f: "w = ?w" "proc s1 = None" "workdir s1 = Some ?w" "path_segs ?w \<noteq> []"
      "frames s1 = frames s"
      by (simp_all add: prepared_ok_def)
    let ?r = "run_dispatch E sp l fls ef (path_join ?w ef) ?w s1"
    have d: "dispatched E ?w s1 ?r"
      by (rule run_dispatch_outcome) (use f in simp_all)
    have h: "handle_run E sfx sp l fls m s = catch_run E ?r"
      using Ready f by (simp add: handle_run_def run_try_def)
    obtain s2 r2 where r: "?r = (s2, r2)" by (cases ?r)
    show ?thesis
    proof (cases r2)
      case None
      with d r f show ?thesis unfolding h
        by (auto simp: dispatched_def catch_run_def run_outcome_def run_over_def)
    next
      case (Some e)
      with d r have w2: "workdir s2 = Some ?w" by (simp add: dispatched_def)
      have "run_over E ?w (cleanup E (send (Error (''Runtime error: '' @ e)) s2))"
        by (intro run_over_cleanup) (use w2 f in \<open>simp_all add: wd_ok_def\<close>)
      then show ?thesis unfolding h using r Some
        by (auto simp: catch_run_def run_outcome_def run_over_def)
    qed
  qed
qed

lemma ends_run_clears:
  "ends_run s ev \<Longrightarrow> proc (step E s ev) = None \<and> workdir (step E s ev) = None"
  by (induction s ev rule: ends_run.induct)
     (simp_all add: handle_terminate_def handle_close_def on_proc_close_def on_proc_error_def
        resume_def after_compile_def catch_run_def)

lemma koc_keep: "workdir s = Some d \<Longrightarrow> kept_or_cleaned E d s"
  by (simp add: kept_or_cleaned_def)

lemma koc_cleanup: "workdir s = Some d \<Longrightarrow> path_segs d \<noteq> [] \<Longrightarrow> kept_or_cleaned E d (cleanup E s)"
  using run_over_cleanup[of s d E] by (simp add: kept_or_cleaned_def wd_ok_def)

lemma koc_send [simp]: "kept_or_cleaned E d (send ev s) = kept_or_cleaned E d s"
  by (simp add: kept_or_cleaned_def run_over_def)

lemma catch_run_simps:
  "catch_run E (s, None) = s"
  "catch_run E (s, Some m) = cleanup E (send (Error (''Runtime error: '' @ m)) s)"
  by (simp_all add: catch_run_def)

lemma koc_catch_spawn:
  "workdir s = Some d \<Longrightarrow> path_segs d \<noteq> []
     \<Longrightarrow> kept_or_cleaned E d (catch_run E (spawn_proc sp cmd args cwd s))"
  by (cases sp) (simp_all add: spawn_proc_def catch_run_def koc_keep koc_cleanup)

lemma koc_after_compile:
  assumes "workdir s = Some d" "path_segs d \<noteq> []"
  shows "kept_or_cleaned E d (catch_run E (after_compile E fr code err sp s))"
  using assms
  by (simp add: after_compile_def koc_catch_spawn catch_run_simps koc_cleanup
        split: sum.splits option.splits)

lemma step_keeps_or_cleans:
  assumes "session_inv s" "workdir s = Some d" "\<not> is_run ev"
  shows "kept_or_cleaned E d (step E s ev)"
proof -
  from assms have p: "path_segs d \<noteq> []" by (simp add: session_inv_def wd_ok_def)
  show ?thesis
  proof (cases ev)
    case (Message m sfx sp)
    with assms p show ?thesis
      by (cases m)
         (simp_all add: koc_keep koc_cleanup handle_terminate_def handle_input_def
            split: option.splits)
  next
    case (StdinError i)
    with assms show ?thesis by (simp add: on_stdin_error_def koc_keep)
  next
    case (CompileClose k code err sp)
    let ?s0 = "s\<lparr>frames := (frames s)[k := (frames s ! k)\<lparr>fr_done := True\<rparr>]\<rparr>"
    have "workdir ?s0 = Some d" using assms by simp
    from koc_after_compile[OF this p] CompileClose assms show ?thesis
      by (simp add: resume_def koc_keep)
  next
    case (ProcClose i code)
    let ?s0 = "send (Exit (ExitCode code)) (s\<lparr>procs := (procs s)[i := (procs s ! i)\<lparr>p_closed := True\<rparr>]\<rparr>)"
    have "workdir ?s0 = Some d" using assms by simp
    from koc_cleanup[OF this p] ProcClose assms show ?thesis
      by (simp add: on_proc_close_def koc_keep)
  next
    case (ProcExit i)
    with assms show ?thesis by (simp add: on_proc_exit_def koc_keep)
  qed (use assms p in \<open>simp_all add: koc_keep koc_cleanup on_proc_error_def handle_close_def\<close>)
qed

lemma resume_spawns_or_cleans:
  assumes "k < length (frames s)" "\<not> fr_done (frames s ! k)"
  shows "proc (step E s (CompileClose k code err sp)) = Some (length (procs s))
         \<or> (proc (step E s (CompileClose k code err sp)) = None
            \<and> workdir (step E s (CompileClose k code err sp)) = None)"
proof -
  have sp: "\<And>cmd args cwd t. procs t = procs s \<Longrightarrow>
      proc (catch_run E (spawn_proc sp cmd args cwd t)) = Some (length (procs s))
      \<or> (proc (catch_run E (spawn_proc sp cmd args cwd t)) = None
          \<and> workdir (catch_run E (spawn_proc sp cmd args cwd t)) = None)"
    by (cases sp) (simp_all add: spawn_proc_def catch_run_def)
  let ?s0 = "s\<lparr>frames := (frames s)[k := (frames s ! k)\<lparr>fr_done := True\<rparr>]\<rparr>"
  have "procs ?s0 = procs s" by simp
  note sp' = sp[OF this]
  show ?thesis using assms sp'
    by (simp add: resume_def after_compile_def catch_run_simps split: sum.splits option.splits)
qed

lemma fs_find_replace: "fs_find (fs_replace es e) (ent_name e) = Some e"
  by (induction es) (auto simp: fs_find_def)

lemma fs_find_append_new:
  "fs_find es n = None \<Longrightarrow> ent_name e = n \<Longrightarrow> fs_find (es @ [e]) n = Some e"
  by (induction es) (auto simp: fs_find_def split: if_splits)

lemma fs_lookup_write:
  "fs_write es p c q = Inr es' \<Longrightarrow> fs_lookup es' p = Some (FileEnt (last p) c)"
proof (induction es p c q arbitrary: es' rule: fs_write.induct)
  case (1 es c p)
  then show ?case by simp
next
  case (2 es n c p)
  then show ?case
    using fs_find_replace[of es "FileEnt n c"]
    by (auto simp: fs_find_append_new split: option.splits dirent.splits)
next
  case (3 es n m ms c p)
  from 3(2) obtain k ch ch' where f: "fs_find es n = Some (DirEnt k ch)"
    and w: "fs_write ch (m # ms) c p = Inr ch'" and e: "es' = fs_replace es (DirEnt n ch')"
    by (auto split: option.splits dirent.splits sum.splits)
  from 3(1)[OF f refl w] have "fs_lookup ch' (m # ms) = Some (FileEnt (last (m # ms)) c)" .
  then show ?case
    using e fs_find_replace[of es "DirEnt n ch'"] by simp
qed

lemma read_after_write:
  "writeFileSync f p c = Inr f' \<Longrightarrow> readFileSync f' p = Inr c"
  by (auto simp: writeFileSync_def readFileSync_def dest!: fs_lookup_write split: if_splits)

lemma node_dispatch:
  assumes "sp = SpawnOk \<or> sp = SpawnFails"
  shows "effects (fst (run_dispatch E sp (Some ''node'') fls ef ep w s))
           = effects s
             @ (if useEsm (fsys s) ep \<and> \<not> isl (writeFileSync (fsys s) (path_join w ''package.json'') package_json)
                then [WriteFile (path_join w ''package.json'') package_json] else [])
             @ [Spawn ''node'' [ef] (Some w)]"
    and "useEsm (fsys s) ep \<and> \<not> isl (writeFileSync (fsys s) (path_join w ''package.json'') package_json)
         \<Longrightarrow> readFileSync (fsys (fst (run_dispatch E sp (Some ''node'') fls ef ep w s)))
               (path_join w ''package.json'') = Inr package_json"
    and "\<not> (useEsm (fsys s) ep \<and> \<not> isl (writeFileSync (fsys s) (path_join w ''package.json'') package_json))
         \<Longrightarrow> fsys (fst (run_dispatch E sp (Some ''node'') fls ef ep w s)) = fsys s"
    and "snd (run_dispatch E sp (Some ''node'') fls ef ep w s) = None"
  using assms
  by (auto simp: run_dispatch_def spawn_proc_def emit_def read_after_write split: sum.splits)

subsection \<open>Sets in insertion order, and the walk over the compiled classes\<close>

lemma set_add_simps:
  "x \<in> set acc \<Longrightarrow> set_add acc x = acc"
  "x \<notin> set acc \<Longrightarrow> set_add acc x = acc @ [x]"
  by (simp_all add: set_add_def)

lemma from_set_Nil [simp]: "from_set [] = []"
  by (simp add: from_set_def)

lemma from_set_start: "from_set (x # xs) = foldl set_add [x] xs"
  unfolding from_set_def foldl.simps by (simp only: set_add_simps(2)[of x "[]", simplified])

lemma foldl_set_add:
  "foldl set_add acc xs = acc @ filter (\<lambda>y. y \<notin> set acc) (from_set xs)"
proof (induction xs arbitrary: acc)
  case Nil
  then show ?case by simp
next
  case (Cons x xs)
  have one: "from_set (x # xs) = x # filter (\<lambda>y. y \<noteq> x) (from_set xs)"
    unfolding from_set_start Cons[of "[x]"] by simp
  show ?case
  proof (cases "x \<in> set acc")
    case True
    then have "filter (\<lambda>y. y \<notin> set acc) (from_set (x # xs)) = filter (\<lambda>y. y \<notin> set acc) (from_set xs)"
      unfolding one by (auto intro: filter_cong)
    with True Cons[of acc] show ?thesis by (simp only: foldl.simps set_add_simps)
  next
    case False
    have a: "set_add acc x = acc @ [x]" using False by (rule set_add_simps)
    have b: "filter (\<lambda>y. y \<notin> set (acc @ [x])) (from_set xs)
            = filter (\<lambda>y. y \<notin> set acc) (filter (\<lambda>y. y \<noteq> x) (from_set xs))"
      by (auto intro: filter_cong)
    have "foldl set_add acc (x # xs) = foldl set_add (acc @ [x]) xs" using a by simp
    also have "\<dots> = (acc @ [x]) @ filter (\<lambda>y. y \<notin> set (acc @ [x])) (from_set xs)"
      by (rule Cons)
    also have "\<dots> = acc @ filter (\<lambda>y. y \<notin> set acc) (from_set (x # xs))"
      unfolding one b using False by simp
    finally show ?thesis .
  qed
qed

lemma from_set_Cons: "from_set (x # xs) = x # filter (\<lambda>y. y \<noteq> x) (from_set xs)"
  unfolding from_set_start foldl_set_add[of "[x]" xs] by simp

lemma set_from_set [simp]: "set (from_set xs) = set xs"
  by (induction xs) (auto simp: from_set_Cons)

lemma distinct_from_set [simp]: "distinct (from_set xs)"
  by (induction xs) (auto simp: from_set_Cons)

lemma from_set_append:
  "from_set (a @ b) = from_set a @ filter (\<lambda>y. y \<notin> set a) (from_set b)"
proof -
  have "from_set (a @ b) = foldl set_add (from_set a) b"
    by (simp add: from_set_def)
  then show ?thesis by (simp add: foldl_set_add)
qed

lemma from_set_append3:
  "from_set (a @ b @ c)
     = from_set a @ filter (\<lambda>y. y \<notin> set a) (from_set b)
       @ filter (\<lambda>y. y \<notin> set (a @ b)) (from_set c)"
proof -
  have "filter (\<lambda>y. y \<notin> set a) (filter (\<lambda>y. y \<notin> set b) (from_set c))
          = filter (\<lambda>y. y \<notin> set (a @ b)) (from_set c)"
    by (auto intro: filter_cong)
  then show ?thesis by (simp add: from_set_append)
qed

lemma orderedFiles_entry_first:
  "orderedFiles entryFile javaFiles
     = (if is_java entryFile then [entryFile] else [])
       @ filter (\<lambda>n. n \<noteq> entryFile \<and> is_java n) (from_set javaFiles)"
  by (auto simp: orderedFiles_def from_set_Cons is_java_def intro: filter_cong)

lemma sourceCandidates_append [simp]:
  "sourceCandidates f wd (a @ b) = sourceCandidates f wd a @ sourceCandidates f wd b"
  by (simp add: sourceCandidates_def)

lemma scan_entries_spec:
  "set (snd (scan_entries wd dir es))
     \<union> (\<Union>(d, ch) \<in> set (fst (scan_entries wd dir es)). set (class_files_spec wd d ch))
   = set (class_files_spec wd dir es)"
  by (induction wd dir es rule: scan_entries.induct) (auto split: prod.splits)

lemma walk_spec:
  "set (walk wd st cl) = set cl \<union> (\<Union>(d, ch) \<in> set st. set (class_files_spec wd d ch))"
proof (induction wd st cl rule: walk.induct)
  case (1 wd classes)
  then show ?case by simp
next
  case (2 wd dir entries stack classes)
  show ?case
    unfolding walk.simps 2
    using scan_entries_spec[of wd dir entries] by auto
qed



subsection \<open>The scan of the sources\<close>












lemma nonword_neq:
  assumes "\<not> is_word x"
  shows "x \<noteq> CHR ''c''" "x \<noteq> CHR ''r''" "x \<noteq> CHR ''e''" "x \<noteq> CHR ''p''" "x \<noteq> CHR ''s''"
    "CHR ''c'' \<noteq> x" "CHR ''r'' \<noteq> x" "CHR ''e'' \<noteq> x" "CHR ''p'' \<noteq> x" "CHR ''s'' \<noteq> x"
  using assms by (auto simp: is_word_def is_alpha_us_def is_digit_def)


lemma class_none_at_nonword:
  "\<not> is_word x \<Longrightarrow> rx_run classRegex (p, [], x # xs) = []"
  by (simp add: classRegex_def nonword_neq)





















lemma grp_free_mainSignature: "grp_free mainSignature"
  by (simp add: mainSignature_def sp0_def sp1_def Plus_def ident_def)











lemma scan_examples:
  "findLikelySourceMainClasses ''app''
       ''public class Main { public static void main(String[] args) { } }'' = [''app.Main'']
   \<and> findLikelySourceMainClasses [] ''class A { }'' = []
   \<and> findLikelySourceMainClasses []
       ''class A { } class B { static public void main(String... a) { } }'' = [''B'']"
  by code_simp

subsection \<open>The two-phase variant and a missing \<^verbatim>\<open>main\<close> method\<close>

text \<open>
  In the variant of \<^verbatim>\<open>part_000\<close>, when neither the probes nor the scan of the sources
  give a class, the handler sends the fixed message and spawns nothing; the resolver
  gives a class only if it is one of the candidates.
\<close>

lemma two_phase_result_is_candidate:
  assumes "findJavaMainClass_two_phase f javap wd entryFile javaFiles = Inr (Some c, probed)"
  shows "\<exists>cands. orderedCandidates f wd entryFile javaFiles = Inr cands \<and> c \<in> set cands"
proof -
  from assms obtain cands where o: "orderedCandidates f wd entryFile javaFiles = Inr cands"
    by (auto simp: findJavaMainClass_two_phase_def split: sum.splits)
  have p: "fst (probe_candidates javap xs) = Some c \<Longrightarrow> c \<in> set xs" for xs
    by (induction xs) (auto split: option.splits bool.splits prod.splits)
  have "c \<in> set cands"
  proof (cases "fst (probe_candidates javap cands)")
    case None
    with assms o have "find (\<lambda>x. x \<in> set cands)
        (sourceLikelyMains f wd (orderedFiles entryFile javaFiles)) = Some c"
      by (auto simp: findJavaMainClass_two_phase_def split: prod.splits)
    then show ?thesis by (auto simp: find_Some_iff)
  next
    case (Some d)
    with assms o have "d = c"
      by (auto simp: findJavaMainClass_two_phase_def split: prod.splits)
    with Some p show ?thesis by simp
  qed
  with o show ?thesis by simp
qed

lemma two_phase_reports_missing_main:
  assumes "workdir s = Some w"
    and "findJavaMainClass_two_phase (fsys s) javap w entryFile javaFiles = Inr (r, probed)"
    and "\<not> truthy r"
  shows "sent (effects (run_java_resolved E javap sp entryFile javaFiles s))
           = sent (effects s) @ [Error main_not_found]"
    and "spawned (effects (run_java_resolved E javap sp entryFile javaFiles s))
           = spawned (effects s)"
    and "length (procs (run_java_resolved E javap sp entryFile javaFiles s)) = length (procs s)"
  using assms by (simp_all add: run_java_resolved_def)

lemma two_phase_without_main:
  "findJavaMainClass_two_phase (fsys compiled_without_main) javap_without_main
       ''/tmp/code-sync-abc123'' ''A.java'' [''A.java''] = Inr (None, [''A''])
   \<and> sent (effects (run_java_resolved linux javap_without_main SpawnOk ''A.java'' [''A.java'']
                       compiled_without_main)) = [Error main_not_found]
   \<and> spawned (effects (run_java_resolved linux javap_without_main SpawnOk ''A.java'' [''A.java'']
                          compiled_without_main)) = []"
  by code_simp

subsection \<open>What the handlers guarantee while the server is up\<close>

text \<open>
  What the handlers guarantee while the server is up. In every state a session can reach:
  \<^item> \<^verbatim>\<open>cleanupProcess\<close> is idempotent on the file system, the processes and the variables
    (a second call only repeats the calls it logs), and a refused removal is swallowed;
  \<^item> \<^verbatim>\<open>terminate\<close>, connection close, the \<^verbatim>\<open>close\<close> and \<^verbatim>\<open>error\<close> events of a process and a
    failed compilation (\<open>ends_run\<close>) leave \<^verbatim>\<open>proc\<close> and \<^verbatim>\<open>workdir\<close> empty;
  \<^item> whenever an event other than \<^verbatim>\<open>run\<close> leaves \<^verbatim>\<open>workdir\<close> empty, the directory it held
    is gone, provided the operating system did not refuse the removal;
  \<^item> a handler resumed after its compiler either spawns a process or leaves \<^verbatim>\<open>workdir\<close>
    empty, whatever failed;
  \<^item> a \<^verbatim>\<open>run\<close> handler starts from the state that \<open>cleanup\<close> leaves, in which the
    directory of the preempted run is gone (same proviso);
  \<^item> a \<^verbatim>\<open>run\<close> handler ends with a process spawned, or waiting for its compiler, or, on
    every error branch, with \<^verbatim>\<open>workdir\<close> empty and the directory it created removed
    (same proviso).
\<close>

lemma cleanup_on_handled_paths:
  assumes "reachable E s"
  shows
  "(cleanupProcess E p w (cleanupProcess E p w t))\<lparr>effects := e\<rparr>
      = (cleanupProcess E p w t)\<lparr>effects := e\<rparr>
   \<and> (ends_run s ev \<longrightarrow> proc (step E s ev) = None \<and> workdir (step E s ev) = None)
   \<and> (\<not> is_run ev \<and> workdir s = Some d \<and> workdir (step E s ev) = None \<and> \<not> rm_fails E d
        \<longrightarrow> \<not> existsSync (fsys (step E s ev)) d)
   \<and> (k < length (frames s) \<and> \<not> fr_done (frames s ! k)
        \<longrightarrow> proc (step E s (CompileClose k code err sp)) \<noteq> None
            \<or> workdir (step E s (CompileClose k code err sp)) = None)
   \<and> step E s (Message (Run l fls m) sfx sp)
        = catch_run E (run_try E sfx sp l fls m (cleanup E s))
   \<and> (workdir s = Some d \<and> \<not> rm_fails E d \<longrightarrow> \<not> existsSync (fsys (cleanup E s)) d)
   \<and> (proc (step E s (Message (Run l fls m) sfx sp)) \<noteq> None
       \<or> length (frames (step E s (Message (Run l fls m) sfx sp))) = Suc (length (frames s))
       \<or> (workdir (step E s (Message (Run l fls m) sfx sp)) = None
           \<and> (existsSync (fsys (cleanup E s)) (tmp_name E sfx) \<or> rm_fails E (tmp_name E sfx)
               \<or> \<not> existsSync (fsys (step E s (Message (Run l fls m) sfx sp))) (tmp_name E sfx))))"
proof -
  from assms have i: "session_inv s" by (rule reachable_inv)
  have 1: "(cleanupProcess E p w (cleanupProcess E p w t))\<lparr>effects := e\<rparr>
      = (cleanupProcess E p w t)\<lparr>effects := e\<rparr>"
    by (rule cleanupProcess_idem)
  have 2: "ends_run s ev \<longrightarrow> proc (step E s ev) = None \<and> workdir (step E s ev) = None"
    by (simp add: ends_run_clears)
  have 3: "\<not> is_run ev \<and> workdir s = Some d \<and> workdir (step E s ev) = None \<and> \<not> rm_fails E d
        \<longrightarrow> \<not> existsSync (fsys (step E s ev)) d"
    using step_keeps_or_cleans[OF i, of d ev E]
    by (auto simp: kept_or_cleaned_def run_over_def)
  have 4: "k < length (frames s) \<and> \<not> fr_done (frames s ! k)
        \<longrightarrow> proc (step E s (CompileClose k code err sp)) \<noteq> None
            \<or> workdir (step E s (CompileClose k code err sp)) = None"
    using resume_spawns_or_cleans[of k s E code err sp] by auto
  have 5: "step E s (Message (Run l fls m) sfx sp)
        = catch_run E (run_try E sfx sp l fls m (cleanup E s))"
    by (simp add: handle_run_def)
  have 6: "workdir s = Some d \<and> \<not> rm_fails E d \<longrightarrow> \<not> existsSync (fsys (cleanup E s)) d"
    using i gone_after_cleanup[of s d E] by (auto simp: session_inv_def)
  have 7: "proc (step E s (Message (Run l fls m) sfx sp)) \<noteq> None
       \<or> length (frames (step E s (Message (Run l fls m) sfx sp))) = Suc (length (frames s))
       \<or> (workdir (step E s (Message (Run l fls m) sfx sp)) = None
           \<and> (existsSync (fsys (cleanup E s)) (tmp_name E sfx) \<or> rm_fails E (tmp_name E sfx)
               \<or> \<not> existsSync (fsys (step E s (Message (Run l fls m) sfx sp))) (tmp_name E sfx)))"
    using handle_run_outcome[of E sfx s sp l fls m]
    by (auto simp: run_outcome_def)
  from 1 2 3 4 5 6 7 show ?thesis by blast
qed

lemma cleanup_on_handled_paths_example:
  "reachable linux python_exited
   \<and> workdir python_exited = Some ''/tmp/code-sync-abc123''
   \<and> existsSync (fsys python_exited) ''/tmp/code-sync-abc123''
   \<and> ends_run python_exited (ProcClose 0 (Some 0))
   \<and> workdir (step linux python_exited (ProcClose 0 (Some 0))) = None
   \<and> \<not> existsSync (fsys (step linux python_exited (ProcClose 0 (Some 0)))) ''/tmp/code-sync-abc123''
   \<and> workdir (step linux (init disk) unsupported_run) = None
   \<and> \<not> existsSync (fsys (step linux (init disk) unsupported_run)) (tmp_name linux ''abc123'')"
proof -
  have c: "\<not> crashed python_session" by code_simp
  have rp: "reachable linux python_session"
    unfolding python_session_def by (rule reachable_first)
  have r: "reachable linux python_exited" "reachable linux (init disk)"
    unfolding python_exited_def by (rule reachable.next_event[OF rp c], rule reachable.start)
  have e: "workdir python_exited = Some ''/tmp/code-sync-abc123''"
    "existsSync (fsys python_exited) ''/tmp/code-sync-abc123''"
    "ends_run python_exited (ProcClose 0 (Some 0))" "\<not> is_run (ProcClose 0 (Some 0))"
    "\<not> rm_fails linux ''/tmp/code-sync-abc123''"
    by code_simp+
  have u: "proc (step linux (init disk) unsupported_run) = None"
    "length (frames (step linux (init disk) unsupported_run)) \<noteq> Suc (length (frames (init disk)))"
    "\<not> existsSync (fsys (cleanup linux (init disk))) (tmp_name linux ''abc123'')"
    "\<not> rm_fails linux (tmp_name linux ''abc123'')"
    by code_simp+
  note t1 = cleanup_on_handled_paths[OF r(1), where ev = "ProcClose 0 (Some 0)"
          and d = "''/tmp/code-sync-abc123''"]
  note t2 = cleanup_on_handled_paths[OF r(2), where l = "Some ''cobol''" and fls = "[src ''a.cob'' ''x'']"
          and m = None and sfx = "''abc123''" and sp = SpawnOk, folded unsupported_run_def]
  have a: "workdir (step linux python_exited (ProcClose 0 (Some 0))) = None
     \<and> \<not> existsSync (fsys (step linux python_exited (ProcClose 0 (Some 0)))) ''/tmp/code-sync-abc123''"
    using t1 e by blast
  have b: "workdir (step linux (init disk) unsupported_run) = None
     \<and> \<not> existsSync (fsys (step linux (init disk) unsupported_run)) (tmp_name linux ''abc123'')"
    using t2 u by blast
  show ?thesis
    using a b r(1) e(1-3) by blast
qed

text \<open>
  In every state a session can reach, handling \<^verbatim>\<open>terminate\<close> leaves \<^verbatim>\<open>proc\<close> and
  \<^verbatim>\<open>workdir\<close> empty, sends exactly one event, the exit event with the marker
  \<^verbatim>\<open>'terminated'\<close>, stops the process that \<^verbatim>\<open>proc\<close> held and removes the directory that
  \<^verbatim>\<open>workdir\<close> held, provided the operating system does not refuse the removal. On an idle
  session nothing changes but the event sent. The marker differs from every exit code.
  (The \<^verbatim>\<open>close\<close> event that Node delivers afterwards for the killed process is a later event
  of the session, with its own exit event carrying the code.)
\<close>

lemma terminate_stops_held_process:
  assumes "reachable E s"
  shows "proc (step E s (Message Terminate sfx sp)) = None
    \<and> workdir (step E s (Message Terminate sfx sp)) = None
    \<and> sent (effects (step E s (Message Terminate sfx sp))) = sent (effects s) @ [Exit ExitTerminated]
    \<and> (\<forall>i. proc s = Some i \<longrightarrow> \<not> running (step E s (Message Terminate sfx sp)) i)
    \<and> (\<forall>d. workdir s = Some d \<longrightarrow> \<not> rm_fails E d
          \<longrightarrow> \<not> existsSync (fsys (step E s (Message Terminate sfx sp))) d)
    \<and> (proc s = None \<and> workdir s = None
          \<longrightarrow> step E s (Message Terminate sfx sp)
               = s\<lparr>effects := effects s @ [Send (Exit ExitTerminated)]\<rparr>)
    \<and> (\<forall>c. ExitTerminated \<noteq> ExitCode c)"
proof -
  from assms have i: "session_inv s" by (rule reachable_inv)
  have 1: "\<forall>i. proc s = Some i \<longrightarrow> \<not> running (step E s (Message Terminate sfx sp)) i"
    using i
    by (auto simp: handle_terminate_def cleanup_def send_def emit_def reset_def session_inv_def running_def
          dest: cleanupProcess_stops[unfolded running_def])
  have 2: "\<forall>d. workdir s = Some d \<longrightarrow> \<not> rm_fails E d
          \<longrightarrow> \<not> existsSync (fsys (step E s (Message Terminate sfx sp))) d"
    using i
    by (auto simp: handle_terminate_def cleanup_def session_inv_def wd_ok_def
          dest: cleanupProcess_removes)
  have 3: "proc s = None \<and> workdir s = None
          \<longrightarrow> step E s (Message Terminate sfx sp)
               = s\<lparr>effects := effects s @ [Send (Exit ExitTerminated)]\<rparr>"
    by (simp add: handle_terminate_def cleanup_idle send_def emit_def)
  show ?thesis using 1 2 3
    by (simp add: handle_terminate_def)
qed

lemma terminate_stops_held_process_example:
  "reachable linux python_session
   \<and> proc python_session = Some 0 \<and> running python_session 0
   \<and> workdir python_session = Some ''/tmp/code-sync-abc123''
   \<and> existsSync (fsys python_session) ''/tmp/code-sync-abc123''
   \<and> \<not> running (step linux python_session (Message Terminate [] SpawnOk)) 0
   \<and> \<not> existsSync (fsys (step linux python_session (Message Terminate [] SpawnOk)))
         ''/tmp/code-sync-abc123''
   \<and> sent (effects (step linux python_session (Message Terminate [] SpawnOk)))
       = [Exit ExitTerminated]"
proof -
  have r: "reachable linux python_session"
    unfolding python_session_def by (rule reachable_first)
  have e: "proc python_session = Some 0" "running python_session 0"
    "workdir python_session = Some ''/tmp/code-sync-abc123''"
    "existsSync (fsys python_session) ''/tmp/code-sync-abc123''"
    "sent (effects python_session) = []" "\<not> rm_fails linux ''/tmp/code-sync-abc123''"
    by code_simp+
  show ?thesis
    using terminate_stops_held_process[OF r, of "[]" SpawnOk] r e by simp
qed

text \<open>
  When \<^verbatim>\<open>proc\<close> holds a process whose stdin is writable, handling \<^verbatim>\<open>input\<close> writes the
  payload text followed by a newline to that process and does nothing else; when
  \<^verbatim>\<open>proc\<close> is empty, or the stdin of the process it holds is not writable, the state is
  unchanged.
\<close>

lemma input_to_held_process:
  "(proc s = Some i \<and> writable s i
      \<longrightarrow> step E s (Message (Input d) sfx sp)
            = s\<lparr>effects := effects s @ [StdinWrite i (or_empty d @ [CHR 0x0A])]\<rparr>)
   \<and> (proc s = None \<or> (\<exists>j. proc s = Some j \<and> \<not> writable s j)
      \<longrightarrow> step E s (Message (Input d) sfx sp) = s)"
  by (auto simp: handle_input_def emit_def)

lemma input_to_held_process_example:
  "proc python_session = Some 0 \<and> writable python_session 0
   \<and> effects (step linux python_session (Message (Input (Some ''42'')) [] SpawnOk))
       = effects python_session @ [StdinWrite 0 [CHR ''4'', CHR ''2'', CHR 0x0A]]
   \<and> proc (init disk) = None
   \<and> step linux (init disk) (Message (Input (Some ''42'')) [] SpawnOk) = init disk"
proof -
  have e: "proc python_session = Some 0" "writable python_session 0" "proc (init disk) = None"
    by code_simp+
  show ?thesis
    using input_to_held_process[of python_session 0 linux "Some ''42''" "[]" SpawnOk]
      input_to_held_process[of "init disk" 0 linux "Some ''42''" "[]" SpawnOk] e
    by (simp add: or_empty_def)
qed

text \<open>
  Two ways in which a workspace stays on disk although the handlers were written to
  remove it: the removal is refused (the error is swallowed by design, \<^verbatim>\<open>workdir\<close> is
  cleared and the removal is not tried again), and a write to the stdin of a program that
  has closed it (the \<^verbatim>\<open>error\<close> event of the stream has no listener, so the server stops).
\<close>

lemma refused_removal_leaves_workspace:
  "workdir (run_events refusing (init disk)
              [Message (Run (Some ''python'') [src ''main.py'' ''pass''] None) ''abc123'' SpawnOk,
               Message Terminate [] SpawnOk]) = None
   \<and> existsSync (fsys (run_events refusing (init disk)
              [Message (Run (Some ''python'') [src ''main.py'' ''pass''] None) ''abc123'' SpawnOk,
               Message Terminate [] SpawnOk])) ''/tmp/code-sync-abc123''"
  by code_simp

lemma failed_write_stops_server:
  "crashed (run_events linux (init disk) failed_write)
   \<and> alive (run_events linux (init disk) failed_write) = [0]
   \<and> existsSync (fsys (run_events linux (init disk) failed_write)) ''/tmp/code-sync-abc123''"
  by code_simp

subsection \<open>Claims about the session\<close>


text \<open>
  C1 (at most one process per session). The \<^verbatim>\<open>run\<close> handler starts by killing the process
  held in \<^verbatim>\<open>proc\<close>, but a handler that waits for its compiler holds no process yet. In
  the history \<open>two_java_runs\<close> the second \<^verbatim>\<open>run\<close> finds \<^verbatim>\<open>proc = null\<close>, both handlers
  resume after their compilers succeeded, and each spawns \<^verbatim>\<open>java\<close>: the first process is
  overwritten in \<^verbatim>\<open>proc\<close> and never killed, so two processes of the session are running.
\<close>

theorem two_runs_two_processes:
  "alive (run_events linux (init disk) two_java_runs) = [0, 1]
   \<and> proc (run_events linux (init disk) two_java_runs) = Some 1
   \<and> spawned (effects (run_events linux (init disk) two_java_runs))
       = [(''java'', [''-cp'', ''/tmp/code-sync-bbbbbb'', ''A'']),
          (''java'', [''-cp'', ''/tmp/code-sync-bbbbbb'', ''A''])]"
  by code_simp

text \<open>
  C2 (no workspace is left behind). The claim fails on a path that the handlers do not
  catch. A frame with the text \<^verbatim>\<open>null\<close> parses, and the test \<^verbatim>\<open>msg.type === 'run'\<close> then
  throws outside every \<^verbatim>\<open>try\<close> block: the server stops, the cleanup routine is never
  called, the workspace of the running program stays on disk and its process keeps
  running; the close of the connection is not handled any more. Without that frame the
  close of the connection removes the workspace and stops the process.
\<close>

theorem workspace_outlives_server_crash:
  "crashed (run_events linux (init disk) null_frame_after_run)
   \<and> workdir (run_events linux (init disk) null_frame_after_run) = Some ''/tmp/code-sync-abc123''
   \<and> existsSync (fsys (run_events linux (init disk) null_frame_after_run)) ''/tmp/code-sync-abc123''
   \<and> alive (run_events linux (init disk) null_frame_after_run) = [0]
   \<and> effects (run_events linux (init disk) null_frame_after_run)
       = [Mkdtemp ''/tmp/code-sync-abc123'', Mkdir ''/tmp/code-sync-abc123'',
          WriteFile ''/tmp/code-sync-abc123/main.py'' ''print(input())'',
          Spawn ''python3'' [''-u'', ''main.py''] (Some ''/tmp/code-sync-abc123'')]
   \<and> \<not> existsSync (fsys (run_events linux (init disk) [hd null_frame_after_run, ConnClose]))
         ''/tmp/code-sync-abc123''
   \<and> alive (run_events linux (init disk) [hd null_frame_after_run, ConnClose]) = []"
  by code_simp

text \<open>
  C3 (no write outside the workspace). Materialization writes every named file at
  \<^verbatim>\<open>path.join(workdir, file.name)\<close> and checks nothing: the name \<^verbatim>\<open>../escape.txt\<close>
  resolves to \<^verbatim>\<open>/tmp/escape.txt\<close>, outside the workspace \<^verbatim>\<open>/tmp/code-sync-abc123\<close>, and
  the file is written there.
\<close>

theorem file_written_outside_workspace:
  "workdir (step linux (init disk) escaping_run) = Some ''/tmp/code-sync-abc123''
   \<and> effects (step linux (init disk) escaping_run)
       = [Mkdtemp ''/tmp/code-sync-abc123'', Mkdir ''/tmp'', WriteFile ''/tmp/escape.txt'' ''x'',
          Spawn ''python3'' [''-u'', ''../escape.txt''] (Some ''/tmp/code-sync-abc123'')]
   \<and> readFileSync (fsys (step linux (init disk) escaping_run)) ''/tmp/escape.txt'' = Inr ''x''
   \<and> \<not> inside ''/tmp/code-sync-abc123'' ''/tmp/escape.txt''"
  by code_simp

text \<open>
  C4 (compile failure). As stated the claim fails when the compiler writes nothing to
  stderr: the handler sends \<^verbatim>\<open>compile.stderr || 'Java compilation failed'\<close>, so the event
  then carries the fixed text, not the (empty) stderr text.
\<close>

theorem silent_compile_failure_message:
  "sent (effects (run_events linux (init disk) silent_compile_failure))
     = [Error ''Java compilation failed'']
   \<and> Error ''Java compilation failed'' \<noteq> Error []"
  by code_simp

text \<open>
  C4, amended. When the compiler of a waiting \<^verbatim>\<open>run\<close> handler closes with a status other
  than 0, exactly one event is sent, the error event carrying the compiler's stderr text
  when that is not empty and otherwise the fixed text of the language; no process is
  spawned, \<^verbatim>\<open>proc\<close> and \<^verbatim>\<open>workdir\<close> are left empty, the workspace is removed (unless the
  operating system refuses), and the handler is finished.
\<close>

theorem compile_failure_reported:
  assumes "reachable E s" "k < length (frames s)" "\<not> fr_done (frames s ! k)" "code \<noteq> Some 0"
  shows "sent (effects (step E s (CompileClose k code err sp)))
           = sent (effects s) @ [Error (if err \<noteq> [] then err
                                        else compile_failed_text (fr_language (frames s ! k)))]
    \<and> spawned (effects (step E s (CompileClose k code err sp))) = spawned (effects s)
    \<and> length (procs (step E s (CompileClose k code err sp))) = length (procs s)
    \<and> proc (step E s (CompileClose k code err sp)) = None
    \<and> workdir (step E s (CompileClose k code err sp)) = None
    \<and> (\<forall>d. workdir s = Some d \<longrightarrow> \<not> rm_fails E d
          \<longrightarrow> \<not> existsSync (fsys (step E s (CompileClose k code err sp))) d)
    \<and> fr_done (frames (step E s (CompileClose k code err sp)) ! k)"
proof -
  let ?s0 = "s\<lparr>frames := (frames s)[k := (frames s ! k)\<lparr>fr_done := True\<rparr>]\<rparr>"
  let ?m = "Error (if err \<noteq> [] then err else compile_failed_text (fr_language (frames s ! k)))"
  have st: "step E s (CompileClose k code err sp) = cleanup E (send ?m ?s0)"
    using assms(2-4) by (simp add: resume_def after_compile_def catch_run_def)
  from assms(1) have "session_inv s" by (rule reachable_inv)
  then have w: "wd_ok (send ?m ?s0)" by (simp add: session_inv_def wd_ok_def)
  have g: "\<forall>d. workdir s = Some d \<longrightarrow> \<not> rm_fails E d \<longrightarrow> \<not> existsSync (fsys (cleanup E (send ?m ?s0))) d"
    using gone_after_cleanup[OF w] by simp
  show ?thesis
    unfolding st using g assms(2) by simp
qed

theorem compile_failure_reported_witness:
  "reachable linux java_compiling
   \<and> workdir java_compiling = Some ''/tmp/code-sync-abc123''
   \<and> sent (effects (step linux java_compiling
              (CompileClose 0 (Some 1) ''A.java:1: error: reached end of file while parsing'' SpawnOk)))
       = [Error ''A.java:1: error: reached end of file while parsing'']
   \<and> spawned (effects (step linux java_compiling
              (CompileClose 0 (Some 1) ''A.java:1: error: reached end of file while parsing'' SpawnOk)))
       = []
   \<and> proc (step linux java_compiling
              (CompileClose 0 (Some 1) ''A.java:1: error: reached end of file while parsing'' SpawnOk))
       = None
   \<and> \<not> existsSync (fsys (step linux java_compiling
              (CompileClose 0 (Some 1) ''A.java:1: error: reached end of file while parsing'' SpawnOk)))
          ''/tmp/code-sync-abc123''"
proof -
  have r: "reachable linux java_compiling"
    unfolding java_compiling_def by (rule reachable_first)
  have e: "0 < length (frames java_compiling)" "\<not> fr_done (frames java_compiling ! 0)"
    "Some (1::int) \<noteq> Some 0" "workdir java_compiling = Some ''/tmp/code-sync-abc123''"
    "sent (effects java_compiling) = []" "spawned (effects java_compiling) = []"
    "\<not> rm_fails linux ''/tmp/code-sync-abc123''"
    by code_simp+
  note t = compile_failure_reported[OF r e(1,2,3),
      of "''A.java:1: error: reached end of file while parsing''" SpawnOk]
  show ?thesis
    using t r e(4-7) by (simp del: step.simps)
qed

text \<open>
  C5 (no unconfirmed default class). In \<^verbatim>\<open>index.js\<close> the resolver returns the base name
  of the entry file when no source file has a \<^verbatim>\<open>main\<close> method: for the single file
  \<^verbatim>\<open>A.java\<close> with the text \<^verbatim>\<open>class A { }\<close> no error is sent and \<^verbatim>\<open>java -cp workdir A\<close> is
  spawned. On the same file the two-phase variant of \<^verbatim>\<open>part_000\<close> sends the fixed message
  and spawns nothing (\<open>two_phase_without_main\<close>).
\<close>

theorem unconfirmed_class_is_run:
  "\<not> rx_test hasMainRegex ''class A { }''
   \<and> sent (effects (run_events linux (init disk) java_without_main)) = []
   \<and> spawned (effects (run_events linux (init disk) java_without_main))
       = [(''java'', [''-cp'', ''/tmp/code-sync-abc123'', ''A''])]
   \<and> alive (run_events linux (init disk) java_without_main) = [0]"
  by code_simp



text \<open>
  C7 (order of the candidates). Whenever the workspace can be listed, the candidate list
  is: the types of the entry file (when it is a \<^verbatim>\<open>.java\<close> file), without repetition;
  then the types of the other submitted \<^verbatim>\<open>.java\<close> files that are not yet listed; then
  the compiled classes that are not yet listed. The compiled classes are those of
  \<open>class_files_spec\<close>: every regular file of the tree below the workspace whose name ends
  in \<^verbatim>\<open>.class\<close> and contains no \<^verbatim>\<open>$\<close>. (The types of a file are those that
  \<^verbatim>\<open>parseJavaPackageAndClasses\<close> returns: the declared ones, or the base name of the file
  when it declares none or cannot be read.)
\<close>

theorem candidates_in_priority_order:
  assumes "listCompiledClassCandidates f wd = Inr compiled"
  shows
  "orderedCandidates f wd entryFile javaFiles
     = Inr (from_set (if is_java entryFile
                      then fqcnCandidates (parseJavaPackageAndClasses f wd entryFile) else [])
            @ filter (\<lambda>c. \<not> (is_java entryFile
                               \<and> c \<in> set (fqcnCandidates (parseJavaPackageAndClasses f wd entryFile))))
                (from_set (sourceCandidates f wd
                             (filter (\<lambda>n. n \<noteq> entryFile \<and> is_java n) (from_set javaFiles))))
            @ filter (\<lambda>c. c \<notin> set (sourceCandidates f wd (orderedFiles entryFile javaFiles)))
                (from_set compiled))
   \<and> (\<exists>n es. fs_lookup f (path_segs wd) = Some (DirEnt n es)
              \<and> set compiled = set (class_files_spec wd wd es))"
proof -
  define A where "A = (if is_java entryFile
            then fqcnCandidates (parseJavaPackageAndClasses f wd entryFile) else [])"
  define B where "B = sourceCandidates f wd
            (filter (\<lambda>n. n \<noteq> entryFile \<and> is_java n) (from_set javaFiles))"
  have src: "sourceCandidates f wd (orderedFiles entryFile javaFiles) = A @ B"
    unfolding orderedFiles_entry_first A_def B_def by (simp add: sourceCandidates_def)
  have fa: "filter (\<lambda>c. \<not> (is_java entryFile
                               \<and> c \<in> set (fqcnCandidates (parseJavaPackageAndClasses f wd entryFile))))
             (from_set B) = filter (\<lambda>c. c \<notin> set A) (from_set B)"
    unfolding A_def by (auto intro: filter_cong)
  have "orderedCandidates f wd entryFile javaFiles = Inr (from_set (A @ B @ compiled))"
    using assms by (simp add: orderedCandidates_def src)
  then have 1: "orderedCandidates f wd entryFile javaFiles
     = Inr (from_set A @ filter (\<lambda>c. c \<notin> set A) (from_set B)
            @ filter (\<lambda>c. c \<notin> set (A @ B)) (from_set compiled))"
    by (simp only: from_set_append3)
  from assms obtain n es where l: "fs_lookup f (path_segs wd) = Some (DirEnt n es)"
    and c: "compiled = walk wd [(wd, es)] []"
    by (auto simp: listCompiledClassCandidates_def split: option.splits dirent.splits)
  have 2: "\<exists>n es. fs_lookup f (path_segs wd) = Some (DirEnt n es)
              \<and> set compiled = set (class_files_spec wd wd es)"
    using l unfolding c walk_spec by simp
  note 3 = 1[folded src, folded fa, unfolded A_def B_def]
  from 3 2 show ?thesis by (rule conjI)
qed

theorem candidates_in_priority_order_witness:
  "listCompiledClassCandidates java_disk ''/tmp/w''
     = Inr [''Main'', ''lib.Util'', ''lib.Kind'', ''lib.Gen'']
   \<and> fqcnCandidates (parseJavaPackageAndClasses java_disk ''/tmp/w'' ''Main.java'') = [''Main'']
   \<and> fqcnCandidates (parseJavaPackageAndClasses java_disk ''/tmp/w'' ''Util.java'')
       = [''lib.Util'', ''lib.Kind'']
   \<and> orderedCandidates java_disk ''/tmp/w'' ''Main.java'' [''Util.java'', ''Main.java'']
       = Inr [''Main'', ''lib.Util'', ''lib.Kind'', ''lib.Gen'']"
proof -
  have c: "listCompiledClassCandidates java_disk ''/tmp/w''
     = Inr [''Main'', ''lib.Util'', ''lib.Kind'', ''lib.Gen'']"
    by code_simp
  have e: "fqcnCandidates (parseJavaPackageAndClasses java_disk ''/tmp/w'' ''Main.java'') = [''Main'']"
    "fqcnCandidates (parseJavaPackageAndClasses java_disk ''/tmp/w'' ''Util.java'')
       = [''lib.Util'', ''lib.Kind'']"
    "is_java ''Main.java''"
    "filter (\<lambda>n. n \<noteq> ''Main.java'' \<and> is_java n) (from_set [''Util.java'', ''Main.java''])
       = [''Util.java'']"
    "orderedFiles ''Main.java'' [''Util.java'', ''Main.java''] = [''Main.java'', ''Util.java'']"
    by code_simp+
  have f: "from_set [''Main''] = [''Main'']" "from_set [''lib.Util'', ''lib.Kind''] = [''lib.Util'', ''lib.Kind'']"
    "from_set [''Main'', ''lib.Util'', ''lib.Kind'', ''lib.Gen'']
       = [''Main'', ''lib.Util'', ''lib.Kind'', ''lib.Gen'']"
    by code_simp+
  note t = candidates_in_priority_order[OF c, of "''Main.java''" "[''Util.java'', ''Main.java'']",
      THEN conjunct1]
  show ?thesis
    using t c e f by (simp add: sourceCandidates_def)
qed

text \<open>
  C8 (terminate). \<^verbatim>\<open>terminate\<close> kills the process held in \<^verbatim>\<open>proc\<close> and no other. After the
  history \<open>two_java_runs\<close> of C1 two processes of the session are running and \<^verbatim>\<open>proc\<close>
  holds the second: \<^verbatim>\<open>terminate\<close> sends the exit event with the marker and leaves the
  first process running. The same happens after \<open>java_then_python\<close>, where the process
  left running is the Python program of the second \<^verbatim>\<open>run\<close>.
\<close>

theorem terminate_leaves_process_running:
  "alive (run_events linux (init disk) two_java_runs) = [0, 1]
   \<and> alive (run_events linux (init disk) (two_java_runs @ [Message Terminate [] SpawnOk])) = [0]
   \<and> proc (run_events linux (init disk) (two_java_runs @ [Message Terminate [] SpawnOk])) = None
   \<and> sent (effects (run_events linux (init disk) (two_java_runs @ [Message Terminate [] SpawnOk])))
       = [Exit ExitTerminated]
   \<and> alive (run_events linux (init disk) java_then_python) = [0, 1]
   \<and> alive (run_events linux (init disk) (java_then_python @ [Message Terminate [] SpawnOk])) = [0]
   \<and> p_cmd (procs (run_events linux (init disk)
                     (java_then_python @ [Message Terminate [] SpawnOk])) ! 0) = ''python3''"
  by code_simp

text \<open>
  C9 (input). The handler looks at \<^verbatim>\<open>proc\<close> only. In the state \<open>orphaned_session\<close>, reached
  by \<open>two_java_runs\<close> and a \<^verbatim>\<open>terminate\<close>, a process of the session is running and its
  stdin is writable, but \<^verbatim>\<open>proc\<close> is empty: the \<^verbatim>\<open>input\<close> message is dropped, nothing is
  written to that process.
\<close>

theorem input_dropped_for_running_process:
  "orphaned_session = run_events linux (init disk) (two_java_runs @ [Message Terminate [] SpawnOk])
   \<and> \<not> crashed orphaned_session
   \<and> alive orphaned_session = [0] \<and> writable orphaned_session 0
   \<and> proc orphaned_session = None
   \<and> step linux orphaned_session (Message (Input (Some ''42'')) [] SpawnOk) = orphaned_session
   \<and> \<not> stdin_written 0
         (effects (step linux orphaned_session (Message (Input (Some ''42'')) [] SpawnOk)))"
  by code_simp

text \<open>
  C10 (package.json for ES modules). As stated the claim fails when the write fails: the
  \<^verbatim>\<open>try\<close> around \<^verbatim>\<open>writeFileSync\<close> ignores the error. Here the submitted files make
  \<^verbatim>\<open>package.json\<close> a directory; the entry file matches the pattern, no \<^verbatim>\<open>package.json\<close>
  file is written, and \<^verbatim>\<open>node\<close> is spawned.
\<close>

theorem esm_write_failure_ignored:
  "rx_test esmRegex ''export default 1''
   \<and> effects (step linux (init disk) esm_blocked_run)
       = [Mkdtemp ''/tmp/code-sync-abc123'',
          Mkdir ''/tmp/code-sync-abc123/package.json'',
          WriteFile ''/tmp/code-sync-abc123/package.json/x.txt'' ''x'',
          Mkdir ''/tmp/code-sync-abc123'',
          WriteFile ''/tmp/code-sync-abc123/m.js'' ''export default 1'',
          Spawn ''node'' [''m.js''] (Some ''/tmp/code-sync-abc123'')]
   \<and> readFileSync (fsys (step linux (init disk) esm_blocked_run))
         ''/tmp/code-sync-abc123/package.json''
       = Inl (sys_error ''EISDIR'' ''read'' ''/tmp/code-sync-abc123/package.json'')"
  by code_simp

text \<open>
  C10, amended. For a \<^verbatim>\<open>run\<close> with the language tag \<^verbatim>\<open>node\<close> whose workspace has been
  prepared (state \<open>s2\<close>): if the entry file can be read and matches
  \<^verbatim>\<open>/\b(import\s+|export\s+)/\<close> and the write succeeds, \<^verbatim>\<open>package.json\<close> with the content
  \<^verbatim>\<open>{"type":"module"}\<close> is written to the workspace and then \<^verbatim>\<open>node\<close> is spawned; if the
  write fails, or the entry file does not match or cannot be read, nothing is written
  and \<^verbatim>\<open>node\<close> is spawned.
\<close>

theorem node_esm_package_json:
  assumes "prepare E sfx fls main (cleanup E s) = Ready s2 w entryFile"
    and "sp = SpawnOk \<or> sp = SpawnFails"
  shows
  "effects (step E s (Message (Run (Some ''node'') fls main) sfx sp))
     = effects s2
       @ (if useEsm (fsys s2) (path_join w entryFile)
             \<and> \<not> isl (writeFileSync (fsys s2) (path_join w ''package.json'') package_json)
          then [WriteFile (path_join w ''package.json'') package_json] else [])
       @ [Spawn ''node'' [entryFile] (Some w)]
   \<and> (useEsm (fsys s2) (path_join w entryFile)
        \<and> \<not> isl (writeFileSync (fsys s2) (path_join w ''package.json'') package_json)
      \<longrightarrow> readFileSync (fsys (step E s (Message (Run (Some ''node'') fls main) sfx sp)))
            (path_join w ''package.json'') = Inr package_json)
   \<and> (\<not> useEsm (fsys s2) (path_join w entryFile)
        \<or> isl (writeFileSync (fsys s2) (path_join w ''package.json'') package_json)
      \<longrightarrow> fsys (step E s (Message (Run (Some ''node'') fls main) sfx sp)) = fsys s2)"
proof -
  let ?r = "run_dispatch E sp (Some ''node'') fls entryFile (path_join w entryFile) w s2"
  have n: "snd ?r = None" using assms(2) by (rule node_dispatch(4))
  have "step E s (Message (Run (Some ''node'') fls main) sfx sp) = catch_run E ?r"
    using assms(1) by (simp add: handle_run_def run_try_def)
  also have "\<dots> = fst ?r" using n by (cases ?r) (simp add: catch_run_def)
  finally have st: "step E s (Message (Run (Some ''node'') fls main) sfx sp) = fst ?r" .
  show ?thesis
    unfolding st
    using node_dispatch(1)[OF assms(2), of E fls entryFile "path_join w entryFile" w s2]
      node_dispatch(2)[OF assms(2), of s2 "path_join w entryFile" w E fls entryFile]
      node_dispatch(3)[OF assms(2), of s2 "path_join w entryFile" w E fls entryFile]
    by auto
qed

theorem node_esm_package_json_witness:
  "prepare linux ''abc123'' [src ''m.js'' ''export default 1''] None (cleanup linux (init disk))
     = Ready esm_prepared ''/tmp/code-sync-abc123'' ''m.js''
   \<and> useEsm (fsys esm_prepared) ''/tmp/code-sync-abc123/m.js''
   \<and> effects (step linux (init disk) esm_run)
       = effects esm_prepared
         @ [WriteFile ''/tmp/code-sync-abc123/package.json'' package_json,
            Spawn ''node'' [''m.js''] (Some ''/tmp/code-sync-abc123'')]
   \<and> readFileSync (fsys (step linux (init disk) esm_run)) ''/tmp/code-sync-abc123/package.json''
       = Inr package_json"
proof -
  have p: "prepare linux ''abc123'' [src ''m.js'' ''export default 1''] None (cleanup linux (init disk))
     = Ready esm_prepared ''/tmp/code-sync-abc123'' ''m.js''"
    by code_simp
  have e: "useEsm (fsys esm_prepared) (path_join ''/tmp/code-sync-abc123'' ''m.js'')"
    "\<not> isl (writeFileSync (fsys esm_prepared) (path_join ''/tmp/code-sync-abc123'' ''package.json'')
             package_json)"
    "path_join ''/tmp/code-sync-abc123'' ''m.js'' = ''/tmp/code-sync-abc123/m.js''"
    "path_join ''/tmp/code-sync-abc123'' ''package.json'' = ''/tmp/code-sync-abc123/package.json''"
    by code_simp+
  note t = node_esm_package_json[OF p, of SpawnOk, folded esm_run_def]
  show ?thesis
    using t p e by (simp del: step.simps)
qed

end
